theory Spec2Isabelle
  imports Main
begin

section \<open>Exceptions and the effects of a run\<close>

text \<open>
  The module \<^verbatim>\<open>src/data/make_dataset.py\<close> holds one class, \<^verbatim>\<open>StockData\<close>, whose
  methods call a market-data provider, reshape the answers with pandas and write five
  tables through an SQL engine. An exception is a value of \<open>py_error\<close>: the two that
  pandas raises on the shaping path, the one of a call with the wrong arguments, whatever
  a provider call raised, and whatever the database layer raised.
\<close>

datatype py_error =
  IndexError | ValueError | TypeError | ProviderError string | PersistenceError

datatype endpoint =
  DailyAdjusted | CompanyOverview | BalanceSheetQuarterly
  | IncomeStatementQuarterly | CashFlowQuarterly

text \<open>What a run does to the outside: a provider call for a symbol, a table write.\<close>

datatype event = Call endpoint string | Write string

datatype 'a cell = Val 'a | Pos nat | NaN

record 'a sql_table =
  sql_columns :: "string list"
  sql_rows :: "'a cell list list"

record 'a world =
  tables :: "string \<rightharpoonup> 'a sql_table"
  trace :: "event list"

type_synonym ('a, 'r) io = "'a world \<Rightarrow> (py_error + 'r) \<times> 'a world"

definition logged :: "event list \<Rightarrow> 'a world \<Rightarrow> 'a world" where
  "logged es w = w\<lparr>trace := trace w @ es\<rparr>"

definition pure :: "py_error + 'r \<Rightarrow> ('a, 'r) io" where
  "pure r w = (r, w)"

text \<open>Statement after statement: an exception in the first skips the rest.\<close>

definition seq :: "('a, 'r) io \<Rightarrow> ('r \<Rightarrow> ('a, 's) io) \<Rightarrow> ('a, 's) io" where
  "seq m f w = (case m w of (Inl e, w') \<Rightarrow> (Inl e, w') | (Inr x, w') \<Rightarrow> f x w')"

definition and_then :: "py_error + 'r \<Rightarrow> ('r \<Rightarrow> py_error + 's) \<Rightarrow> py_error + 's" where
  "and_then r f = (case r of Inl e \<Rightarrow> Inl e | Inr x \<Rightarrow> f x)"

section \<open>The pandas operations the module calls\<close>

text \<open>
  A DataFrame: the name of its index, the index labels (one per row), the column labels
  and the rows. \<open>Pos\<close> cells are the entries of a RangeIndex, \<open>NaN\<close> is a missing value.
\<close>

record 'a dataframe =
  index_name :: "string option"
  index :: "'a cell list"
  columns :: "string list"
  data :: "'a cell list list"

definition RangeIndex :: "nat \<Rightarrow> 'a cell list" where
  "RangeIndex n = map Pos [0..<n]"

text \<open>\<^verbatim>\<open>df.columns[i]\<close> for a literal \<open>i \<ge> 0\<close>: IndexError past the last column.\<close>

definition columns_getitem :: "string list \<Rightarrow> nat \<Rightarrow> py_error + string" where
  "columns_getitem cols i = (if i < length cols then Inr (cols ! i) else Inl IndexError)"

text \<open>A dict display \<^verbatim>\<open>{k0: v0, k1: v1, ...}\<close>: a later entry replaces an equal key.\<close>

definition dict_literal :: "('k \<times> 'v) list \<Rightarrow> ('k \<rightharpoonup> 'v)" where
  "dict_literal kvs = map_of (rev kvs)"

text \<open>\<^verbatim>\<open>df.rename(columns=mapper)\<close>: every label the mapper knows is replaced.\<close>

definition rename :: "(string \<rightharpoonup> string) \<Rightarrow> 'a dataframe \<Rightarrow> 'a dataframe" where
  "rename mapper df =
     df\<lparr>columns := map (\<lambda>c. case mapper c of Some n \<Rightarrow> n | None \<Rightarrow> c) (columns df)\<rparr>"

text \<open>
  \<^verbatim>\<open>df.reset_index()\<close>: the index becomes the first column, named after the index
  (\<^verbatim>\<open>index\<close>, or \<^verbatim>\<open>level_0\<close> when that is taken, for an unnamed index); inserting a
  label that is already a column raises ValueError. The new index is a RangeIndex.
\<close>

definition index_label :: "'a dataframe \<Rightarrow> string" where
  "index_label df =
     (case index_name df of
        Some n \<Rightarrow> n
      | None \<Rightarrow> if ''index'' \<in> set (columns df) then ''level_0'' else ''index'')"

definition reset_index :: "'a dataframe \<Rightarrow> py_error + 'a dataframe" where
  "reset_index df =
     (if index_label df \<in> set (columns df) then Inl ValueError
      else Inr \<lparr>index_name = None, index = RangeIndex (length (index df)),
                columns = index_label df # columns df,
                data = map2 (#) (index df) (data df)\<rparr>)"

type_synonym 'a pydict = "(string \<times> 'a) list"

text \<open>\<^verbatim>\<open>pd.DataFrame(d, index=[0])\<close> for a dict of scalars: one row, a column per key.\<close>

definition DataFrame_of_dict :: "'a pydict \<Rightarrow> 'a dataframe" where
  "DataFrame_of_dict d =
     \<lparr>index_name = None, index = [Pos 0], columns = map fst d,
      data = [map (\<lambda>kv. Val (snd kv)) d]\<rparr>"

text \<open>The labels of several lists, each once, in the order of first appearance.\<close>

definition fast_unique :: "'k list list \<Rightarrow> 'k list" where
  "fast_unique kss = rev (remdups (rev (concat kss)))"

text \<open>
  \<^verbatim>\<open>pd.DataFrame.from_records(recs)\<close> for a list of dicts: a row per record, a column
  per key of any record, NaN where a record lacks the key.
\<close>

definition from_records :: "'a pydict list \<Rightarrow> 'a dataframe" where
  "from_records recs =
     (let cols = fast_unique (map (map fst) recs)
      in \<lparr>index_name = None, index = RangeIndex (length recs), columns = cols,
          data = map (\<lambda>r. map (\<lambda>c. case map_of r c of Some v \<Rightarrow> Val v | None \<Rightarrow> NaN) cols)
                   recs\<rparr>)"

section \<open>The provider and the database\<close>

type_synonym meta = "(string \<times> string) list"

text \<open>
  The provider answers each endpoint for an API key and a symbol, with the data and its
  metadata or with an exception. The daily series also takes the output size.
\<close>

record 'a provider =
  daily_adjusted :: "string \<Rightarrow> string \<Rightarrow> string \<Rightarrow> py_error + ('a dataframe \<times> meta)"
  company_overview :: "string \<Rightarrow> string \<Rightarrow> py_error + ('a pydict \<times> meta)"
  balance_sheet_quarterly :: "string \<Rightarrow> string \<Rightarrow> py_error + ('a pydict list \<times> meta)"
  income_statement_quarterly :: "string \<Rightarrow> string \<Rightarrow> py_error + ('a pydict list \<times> meta)"
  cash_flow_quarterly :: "string \<Rightarrow> string \<Rightarrow> py_error + ('a pydict list \<times> meta)"

text \<open>
  What a failed write leaves of its table. The source does not say: the replacing write
  drops the table, creates it and inserts the rows, and whether a failure in the middle
  is rolled back is the database's and the library's affair. So the table is either as it
  was, or in a state the failed write left (absent, or created with no or some rows).
\<close>

datatype 'a residue = Intact | Left "'a sql_table option"

definition settle :: "'a residue \<Rightarrow> 'a sql_table option \<Rightarrow> 'a sql_table option" where
  "settle r old = (case r of Intact \<Rightarrow> old | Left t \<Rightarrow> t)"

text \<open>
  The database: the connection strings an engine can be made from, the tables whose
  write fails on a given engine, and what such a failed write of given contents leaves.
  \<^verbatim>\<open>create_engine\<close> does not connect, so a server that cannot be reached shows as the
  write of the first table failing.
\<close>

record 'a database =
  accepts_url :: "string \<Rightarrow> bool"
  rejects :: "string \<Rightarrow> string \<Rightarrow> bool"
  failed_write :: "string \<Rightarrow> string \<Rightarrow> 'a sql_table \<Rightarrow> 'a residue"

record engine =
  url :: string

definition create_engine :: "'a database \<Rightarrow> string \<Rightarrow> py_error + engine" where
  "create_engine db conn_str =
     (if accepts_url db conn_str then Inr \<lparr>url = conn_str\<rparr> else Inl PersistenceError)"

text \<open>
  \<^verbatim>\<open>df.to_sql(name, engine, if_exists='replace', index=False)\<close>: the table \<open>name\<close> becomes
  the frame's columns and rows, without its index, whatever the table held. A write that
  fails raises, and its table is what the database leaves of it.
\<close>

definition sql_of :: "'a dataframe \<Rightarrow> 'a sql_table" where
  "sql_of df = \<lparr>sql_columns = columns df, sql_rows = data df\<rparr>"

definition to_sql ::
  "'a database \<Rightarrow> 'a dataframe \<Rightarrow> string \<Rightarrow> engine \<Rightarrow> ('a, unit) io" where
  "to_sql db df name eng w =
     (let w' = logged [Write name] w
      in if rejects db (url eng) name
         then (Inl PersistenceError,
               w'\<lparr>tables := (tables w')
                    (name := settle (failed_write db (url eng) name (sql_of df))
                               (tables w' name))\<rparr>)
         else (Inr (), w'\<lparr>tables := (tables w')(name \<mapsto> sql_of df)\<rparr>))"

section \<open>The class StockData\<close>

record time_series =
  ts_key :: string
  ts_output_format :: string

record fundamental_data =
  fd_key :: string

record stock_data =
  ticker :: string
  ts :: time_series
  fd :: fundamental_data

text \<open>The module \<^verbatim>\<open>keys\<close>, imported at the top of the file.\<close>

record keys_module =
  api_key :: string

text \<open>\<^verbatim>\<open>StockData.__init__(self, ticker)\<close>.\<close>

definition StockData_init :: "keys_module \<Rightarrow> string \<Rightarrow> stock_data" where
  "StockData_init keys tkr =
     \<lparr>ticker = tkr,
      ts = \<lparr>ts_key = api_key keys, ts_output_format = ''pandas''\<rparr>,
      fd = \<lparr>fd_key = api_key keys\<rparr>\<rparr>"


text \<open>The calls on \<^verbatim>\<open>self.ts\<close> and \<^verbatim>\<open>self.fd\<close>, each recorded in the trace.\<close>

definition get_daily_adjusted ::
  "'a provider \<Rightarrow> time_series \<Rightarrow> string \<Rightarrow> string \<Rightarrow> ('a, 'a dataframe \<times> meta) io" where
  "get_daily_adjusted prov t symbol outputsize w =
     (daily_adjusted prov (ts_key t) symbol outputsize,
      logged [Call DailyAdjusted symbol] w)"

definition get_company_overview ::
  "'a provider \<Rightarrow> fundamental_data \<Rightarrow> string \<Rightarrow> ('a, 'a pydict \<times> meta) io" where
  "get_company_overview prov f symbol w =
     (company_overview prov (fd_key f) symbol,
      logged [Call CompanyOverview symbol] w)"

definition get_balance_sheet_quarterly ::
  "'a provider \<Rightarrow> fundamental_data \<Rightarrow> string \<Rightarrow> ('a, 'a pydict list \<times> meta) io" where
  "get_balance_sheet_quarterly prov f symbol w =
     (balance_sheet_quarterly prov (fd_key f) symbol,
      logged [Call BalanceSheetQuarterly symbol] w)"

definition get_income_statement_quarterly ::
  "'a provider \<Rightarrow> fundamental_data \<Rightarrow> string \<Rightarrow> ('a, 'a pydict list \<times> meta) io" where
  "get_income_statement_quarterly prov f symbol w =
     (income_statement_quarterly prov (fd_key f) symbol,
      logged [Call IncomeStatementQuarterly symbol] w)"

definition get_cash_flow_quarterly ::
  "'a provider \<Rightarrow> fundamental_data \<Rightarrow> string \<Rightarrow> ('a, 'a pydict list \<times> meta) io" where
  "get_cash_flow_quarterly prov f symbol w =
     (cash_flow_quarterly prov (fd_key f) symbol,
      logged [Call CashFlowQuarterly symbol] w)"

text \<open>
  The dict display of lines 69 to 76: the first eight column labels, read by position in
  order, each mapped to its schema name.
\<close>

definition rename_columns_dict :: "string list \<Rightarrow> py_error + (string \<rightharpoonup> string)" where
  "rename_columns_dict cols =
     and_then (columns_getitem cols 0) (\<lambda>c0.
     and_then (columns_getitem cols 1) (\<lambda>c1.
     and_then (columns_getitem cols 2) (\<lambda>c2.
     and_then (columns_getitem cols 3) (\<lambda>c3.
     and_then (columns_getitem cols 4) (\<lambda>c4.
     and_then (columns_getitem cols 5) (\<lambda>c5.
     and_then (columns_getitem cols 6) (\<lambda>c6.
     and_then (columns_getitem cols 7) (\<lambda>c7.
       Inr (dict_literal
             [(c0, ''open''), (c1, ''high''), (c2, ''low''), (c3, ''close''),
              (c4, ''adjusted_close''), (c5, ''volume''), (c6, ''dividend_amount''),
              (c7, ''split_coefficient'')])))))))))"

text \<open>Lines 68 to 77: the renaming of the columns and the index made a column.\<close>

definition shape_historical :: "'a dataframe \<Rightarrow> py_error + 'a dataframe" where
  "shape_historical historical_data =
     and_then (rename_columns_dict (columns historical_data)) (\<lambda>mapper.
     reset_index (rename mapper historical_data))"

definition get_historical_data :: "'a provider \<Rightarrow> stock_data \<Rightarrow> ('a, 'a dataframe) io" where
  "get_historical_data prov self =
     seq (get_daily_adjusted prov (ts self) (ticker self) ''full'') (\<lambda>(data, _).
     pure (shape_historical data))"

definition get_fundamental_data ::
  "'a provider \<Rightarrow> stock_data \<Rightarrow>
     ('a, 'a dataframe \<times> 'a dataframe \<times> 'a dataframe \<times> 'a dataframe) io" where
  "get_fundamental_data prov self =
     seq (get_company_overview prov (fd self) (ticker self)) (\<lambda>overview.
     seq (get_balance_sheet_quarterly prov (fd self) (ticker self)) (\<lambda>q_bs.
     seq (get_income_statement_quarterly prov (fd self) (ticker self)) (\<lambda>q_is.
     seq (get_cash_flow_quarterly prov (fd self) (ticker self)) (\<lambda>q_cf.
     pure (Inr (DataFrame_of_dict (fst overview), from_records (fst q_bs),
                from_records (fst q_is), from_records (fst q_cf)))))))"

definition save_to_database ::
  "'a provider \<Rightarrow> 'a database \<Rightarrow> stock_data \<Rightarrow> string \<Rightarrow> ('a, unit) io" where
  "save_to_database prov db self conn_str =
     seq (pure (create_engine db conn_str)) (\<lambda>eng.
     seq (get_historical_data prov self) (\<lambda>historical_data.
     seq (get_fundamental_data prov self) (\<lambda>(overview_df, bs_df, is_df, cf_df).
     seq (to_sql db historical_data ''historical_data'' eng) (\<lambda>_.
     seq (to_sql db overview_df ''microsoft'' eng) (\<lambda>_.
     seq (to_sql db bs_df ''balance_sheet_data'' eng) (\<lambda>_.
     seq (to_sql db is_df ''income_statement_data'' eng) (\<lambda>_.
     to_sql db cf_df ''cash_flow_data'' eng)))))))"

section \<open>Vocabulary of the properties\<close>

text \<open>The provider calls and the table writes of a trace, in the order they happened.\<close>

fun called :: "event list \<Rightarrow> endpoint list" where
  "called [] = []"
| "called (Call ep _ # es) = ep # called es"
| "called (Write _ # es) = called es"

fun written :: "event list \<Rightarrow> string list" where
  "written [] = []"
| "written (Call _ _ # es) = written es"
| "written (Write n # es) = n # written es"

text \<open>What a run added to the trace of the world it started in.\<close>

definition events ::
  "'a provider \<Rightarrow> 'a database \<Rightarrow> stock_data \<Rightarrow> string \<Rightarrow> 'a world \<Rightarrow> event list" where
  "events prov db self conn_str w =
     drop (length (trace w)) (trace (snd (save_to_database prov db self conn_str w)))"

text \<open>The exception the provider answers an object's call of an endpoint with, if any.\<close>

definition failure :: "py_error + 'r \<Rightarrow> py_error option" where
  "failure r = (case r of Inl e \<Rightarrow> Some e | Inr _ \<Rightarrow> None)"

fun raised :: "'a provider \<Rightarrow> stock_data \<Rightarrow> endpoint \<Rightarrow> py_error option" where
  "raised prov self DailyAdjusted =
     failure (daily_adjusted prov (ts_key (ts self)) (ticker self) ''full'')"
| "raised prov self CompanyOverview =
     failure (company_overview prov (fd_key (fd self)) (ticker self))"
| "raised prov self BalanceSheetQuarterly =
     failure (balance_sheet_quarterly prov (fd_key (fd self)) (ticker self))"
| "raised prov self IncomeStatementQuarterly =
     failure (income_statement_quarterly prov (fd_key (fd self)) (ticker self))"
| "raised prov self CashFlowQuarterly =
     failure (cash_flow_quarterly prov (fd_key (fd self)) (ticker self))"

definition fetch_order :: "endpoint list" where
  "fetch_order =
     [DailyAdjusted, CompanyOverview, BalanceSheetQuarterly, IncomeStatementQuarterly,
      CashFlowQuarterly]"

definition table_order :: "string list" where
  "table_order =
     [''historical_data'', ''microsoft'', ''balance_sheet_data'', ''income_statement_data'',
      ''cash_flow_data'']"

section \<open>Sample data\<close>

definition schema :: "string list" where
  "schema =
     [''date'', ''open'', ''high'', ''low'', ''close'', ''adjusted_close'', ''volume'',
      ''dividend_amount'', ''split_coefficient'']"

text \<open>Two trading days under the provider's own labels.\<close>

definition daily_frame :: "string dataframe" where
  "daily_frame =
     \<lparr>index_name = Some ''date'',
      index = [Val ''2024-01-02'', Val ''2024-01-03''],
      columns = [''1. open'', ''2. high'', ''3. low'', ''4. close'', ''5. adjusted close'',
                 ''6. volume'', ''7. dividend amount'', ''8. split coefficient''],
      data = [map Val [''370.0'', ''373.0'', ''369.5'', ''371.0'', ''371.0'', ''25000000'',
                       ''0.0'', ''1.0''],
              map Val [''372.5'', ''374.0'', ''370.1'', ''370.6'', ''370.6'', ''23000000'',
                       ''0.0'', ''1.0'']]\<rparr>"

text \<open>The same days with a ninth column after the eight.\<close>

definition nine_column_frame :: "string dataframe" where
  "nine_column_frame =
     daily_frame\<lparr>columns := columns daily_frame @ [''9. note''],
                 data := map (\<lambda>r. r @ [Val ''x'']) (data daily_frame)\<rparr>"

text \<open>Eight columns of which the first two carry one label.\<close>

definition repeated_label_frame :: "string dataframe" where
  "repeated_label_frame =
     daily_frame\<lparr>columns := [''price'', ''price'', ''3. low'', ''4. close'',
                             ''5. adjusted close'', ''6. volume'', ''7. dividend amount'',
                             ''8. split coefficient'']\<rparr>"

text \<open>Nine columns, the ninth labelled like the index.\<close>

definition date_column_frame :: "string dataframe" where
  "date_column_frame =
     daily_frame\<lparr>columns := columns daily_frame @ [''date''],
                 data := map (\<lambda>r. r @ [Val ''x'']) (data daily_frame)\<rparr>"

definition seven_column_frame :: "string dataframe" where
  "seven_column_frame =
     daily_frame\<lparr>columns := take 7 (columns daily_frame),
                 data := map (take 7) (data daily_frame)\<rparr>"

definition overview_record :: "string \<Rightarrow> string pydict" where
  "overview_record symbol = [(''Symbol'', symbol), (''Currency'', ''USD'')]"

definition quarter :: "string \<Rightarrow> string \<Rightarrow> string pydict" where
  "quarter day amount = [(''fiscalDateEnding'', day), (''totalAssets'', amount)]"

definition four_quarters :: "string pydict list" where
  "four_quarters =
     [quarter ''2023-12-31'' ''470558'', quarter ''2023-09-30'' ''445785'',
      quarter ''2023-06-30'' ''411976'', quarter ''2023-03-31'' ''380088'']"

text \<open>A provider that answers every key alike, with the given daily series.\<close>

definition sample_provider :: "string dataframe \<Rightarrow> string provider" where
  "sample_provider df =
     \<lparr>daily_adjusted = (\<lambda>_ _ _. Inr (df, [])),
      company_overview = (\<lambda>_ symbol. Inr (overview_record symbol, [])),
      balance_sheet_quarterly = (\<lambda>_ _. Inr (four_quarters, [])),
      income_statement_quarterly = (\<lambda>_ _. Inr (four_quarters, [])),
      cash_flow_quarterly = (\<lambda>_ _. Inr (four_quarters, []))\<rparr>"

text \<open>The same provider out of quota when asked for the balance sheet.\<close>

definition failing_provider :: "string provider" where
  "failing_provider =
     (sample_provider daily_frame)
       \<lparr>balance_sheet_quarterly := (\<lambda>_ _. Inl (ProviderError ''rate limit''))\<rparr>"


definition sample_keys :: keys_module where
  "sample_keys = \<lparr>api_key = ''demo''\<rparr>"

definition sample_database :: "string database" where
  "sample_database =
     \<lparr>accepts_url = (\<lambda>_. True), rejects = (\<lambda>_ _. False), failed_write = (\<lambda>_ _ _. Intact)\<rparr>"

text \<open>A database on which the write of the balance sheet fails and is rolled back.\<close>

definition picky_database :: "string database" where
  "picky_database =
     \<lparr>accepts_url = (\<lambda>_. True), rejects = (\<lambda>_ n. n = ''balance_sheet_data''),
      failed_write = (\<lambda>_ _ _. Intact)\<rparr>"

text \<open>
  A database on which the write of the balance sheet fails at the insert, after the table
  has been dropped and created anew.
\<close>

definition recreating_database :: "string database" where
  "recreating_database =
     \<lparr>accepts_url = (\<lambda>_. True), rejects = (\<lambda>_ n. n = ''balance_sheet_data''),
      failed_write = (\<lambda>_ _ t. Left (Some (t\<lparr>sql_rows := []\<rparr>)))\<rparr>"


definition empty_world :: "string world" where
  "empty_world = \<lparr>tables = Map.empty, trace = []\<rparr>"

text \<open>A world in which an earlier run has left an overview and a balance sheet.\<close>

definition stale_world :: "string world" where
  "stale_world =
     \<lparr>tables =
        [''microsoft'' \<mapsto> \<lparr>sql_columns = [''Symbol''], sql_rows = [[Val ''IBM'']]\<rparr>,
         ''balance_sheet_data'' \<mapsto>
           \<lparr>sql_columns = [''totalAssets''], sql_rows = [[Val ''127243'']]\<rparr>],
      trace = []\<rparr>"

section \<open>How a run unfolds\<close>

lemma logged_simps [simp]:
  "tables (logged es w) = tables w"
  "trace (logged es w) = trace w @ es"
  "logged es (logged es' w) = logged (es' @ es) w"
  by (simp_all add: logged_def)

lemma seq_pure [simp]:
  "seq (pure (Inr x)) f w = f x w"
  "seq (pure (Inl e)) f w = (Inl e, w)"
  by (simp_all add: seq_def pure_def)

lemma and_then_simps [simp]:
  "and_then (Inr x) f = f x"
  "and_then (Inl e) f = Inl e"
  by (simp_all add: and_then_def)

lemma rename_columns_dict_short:
  "length cols < 8 \<Longrightarrow> rename_columns_dict cols = Inl IndexError"
  by (simp add: rename_columns_dict_def columns_getitem_def)

lemma rename_columns_dict_long:
  assumes "8 \<le> length cols"
  shows "rename_columns_dict cols =
     Inr (dict_literal
           [(cols ! 0, ''open''), (cols ! 1, ''high''), (cols ! 2, ''low''),
            (cols ! 3, ''close''), (cols ! 4, ''adjusted_close''), (cols ! 5, ''volume''),
            (cols ! 6, ''dividend_amount''), (cols ! 7, ''split_coefficient'')])"
proof -
  from assms have "0 < length cols" "1 < length cols" "2 < length cols" "3 < length cols"
    "4 < length cols" "5 < length cols" "6 < length cols" "7 < length cols"
    by auto
  then show ?thesis
    by (simp add: rename_columns_dict_def columns_getitem_def)
qed

lemma length_eight:
  "length xs = 8 \<Longrightarrow> \<exists>a b c d e f g h. xs = [a, b, c, d, e, f, g, h]"
  by (auto simp add: eval_nat_numeral length_Suc_conv)

lemma renamed_eight:
  assumes "length (columns df) = 8" and "distinct (columns df)"
    and "rename_columns_dict (columns df) = Inr mapper"
  shows "columns (rename mapper df) =
         [''open'', ''high'', ''low'', ''close'', ''adjusted_close'', ''volume'',
          ''dividend_amount'', ''split_coefficient'']"
proof -
  from assms(1) obtain a b c d e f g h where "columns df = [a, b, c, d, e, f, g, h]"
    using length_eight by blast
  with assms(2,3) show ?thesis
    by (auto simp add: rename_def dict_literal_def rename_columns_dict_def
        columns_getitem_def)
qed

text \<open>The daily call is logged whatever it answers; the shaping touches nothing.\<close>

lemma get_historical_data_cases:
  "get_historical_data prov self w =
     ((case daily_adjusted prov (ts_key (ts self)) (ticker self) ''full'' of
         Inl e \<Rightarrow> Inl e
       | Inr r \<Rightarrow> shape_historical (fst r)),
      logged [Call DailyAdjusted (ticker self)] w)"
  by (simp add: get_historical_data_def get_daily_adjusted_def seq_def pure_def
      split: sum.splits prod.splits)

lemma get_fundamental_data_cases:
  "get_fundamental_data prov self w =
    (case company_overview prov (fd_key (fd self)) (ticker self) of
       Inl e \<Rightarrow> (Inl e, logged [Call CompanyOverview (ticker self)] w)
     | Inr ov \<Rightarrow>
    (case balance_sheet_quarterly prov (fd_key (fd self)) (ticker self) of
       Inl e \<Rightarrow> (Inl e, logged [Call CompanyOverview (ticker self),
                                 Call BalanceSheetQuarterly (ticker self)] w)
     | Inr bs \<Rightarrow>
    (case income_statement_quarterly prov (fd_key (fd self)) (ticker self) of
       Inl e \<Rightarrow> (Inl e, logged [Call CompanyOverview (ticker self),
                                 Call BalanceSheetQuarterly (ticker self),
                                 Call IncomeStatementQuarterly (ticker self)] w)
     | Inr ic \<Rightarrow>
    (case cash_flow_quarterly prov (fd_key (fd self)) (ticker self) of
       Inl e \<Rightarrow> (Inl e, logged [Call CompanyOverview (ticker self),
                                 Call BalanceSheetQuarterly (ticker self),
                                 Call IncomeStatementQuarterly (ticker self),
                                 Call CashFlowQuarterly (ticker self)] w)
     | Inr cf \<Rightarrow>
        (Inr (DataFrame_of_dict (fst ov), from_records (fst bs), from_records (fst ic),
              from_records (fst cf)),
         logged [Call CompanyOverview (ticker self),
                 Call BalanceSheetQuarterly (ticker self),
                 Call IncomeStatementQuarterly (ticker self),
                 Call CashFlowQuarterly (ticker self)] w)))))"
  by (simp add: get_fundamental_data_def get_company_overview_def
      get_balance_sheet_quarterly_def get_income_statement_quarterly_def
      get_cash_flow_quarterly_def seq_def pure_def logged_def
      split: sum.splits prod.splits)

lemma settle_simps [simp]:
  "settle Intact old = old"
  "settle (Left t) old = t"
  "settle r (settle r old) = settle r old"
  by (simp_all add: settle_def split: residue.splits)

lemma to_sql_cases:
  "to_sql db df name eng w =
     (if rejects db (url eng) name
      then (Inl PersistenceError,
            (logged [Write name] w)
              \<lparr>tables := (tables w)
                   (name := settle (failed_write db (url eng) name (sql_of df))
                              (tables w name))\<rparr>)
      else (Inr (), (logged [Write name] w)\<lparr>tables := (tables w)(name \<mapsto> sql_of df)\<rparr>))"
  by (simp add: to_sql_def Let_def)

section \<open>The historical series\<close>

text \<open>
  C1 (as amended). For every answer to the daily-adjusted call that has exactly eight
  columns with pairwise distinct labels and an index named \<^verbatim>\<open>date\<close>,
  \<open>get_historical_data\<close> returns a table whose column names are exactly date, open, high,
  low, close, adjusted_close, volume, dividend_amount, split_coefficient, in that order,
  whatever the eight labels were, and each row is the answer's row with its index entry
  put in front.
\<close>

theorem historical_columns_exactly_eight:
  assumes "daily_adjusted prov (ts_key (ts self)) (ticker self) ''full'' = Inr (df, m)"
    and "length (columns df) = 8" and "distinct (columns df)"
    and "index_name df = Some ''date''"
  shows "\<exists>out. fst (get_historical_data prov self w) = Inr out \<and>
           columns out = schema \<and> data out = map2 (#) (index df) (data df)"
proof -
  from assms(2) obtain mapper where m: "rename_columns_dict (columns df) = Inr mapper"
    by (simp add: rename_columns_dict_long)
  let ?r = "rename mapper df"
  have cols: "columns ?r =
      [''open'', ''high'', ''low'', ''close'', ''adjusted_close'', ''volume'',
       ''dividend_amount'', ''split_coefficient'']"
    using assms(2,3) m by (rule renamed_eight)
  have lab: "index_label ?r = ''date''"
    using assms(4) by (simp add: index_label_def rename_def)
  have rest: "index ?r = index df" "data ?r = data df"
    by (simp_all add: rename_def)
  have "reset_index ?r = Inr \<lparr>index_name = None, index = RangeIndex (length (index df)),
          columns = ''date'' # columns ?r, data = map2 (#) (index df) (data df)\<rparr>"
    unfolding reset_index_def lab rest cols by simp
  then show ?thesis
    using assms(1) m cols
    by (simp add: get_historical_data_cases shape_historical_def schema_def)
qed

theorem historical_columns_exactly_eight_witness:
  "map_sum id columns
     (fst (get_historical_data (sample_provider daily_frame)
        (StockData_init sample_keys ''MSFT'') empty_world)) = Inr schema \<and>
   map_sum id data
     (fst (get_historical_data (sample_provider daily_frame)
        (StockData_init sample_keys ''MSFT'') empty_world)) =
     Inr [map Val [''2024-01-02'', ''370.0'', ''373.0'', ''369.5'', ''371.0'', ''371.0'',
                   ''25000000'', ''0.0'', ''1.0''],
          map Val [''2024-01-03'', ''372.5'', ''374.0'', ''370.1'', ''370.6'', ''370.6'',
                   ''23000000'', ''0.0'', ''1.0'']]"
proof -
  have a: "daily_adjusted (sample_provider daily_frame)
      (ts_key (ts (StockData_init sample_keys ''MSFT'')))
      (ticker (StockData_init sample_keys ''MSFT'')) ''full'' = Inr (daily_frame, [])"
    by (simp add: sample_provider_def)
  have b: "length (columns daily_frame) = 8" "distinct (columns daily_frame)"
    "index_name daily_frame = Some ''date''"
    by (simp_all add: daily_frame_def)
  from historical_columns_exactly_eight [OF a b, of empty_world]
  show ?thesis by (auto simp add: daily_frame_def)
qed

text \<open>
  The claim as stated fails twice. A ninth column stays in the table under its own label,
  so the names are not the nine of the schema; and two of the first eight columns under
  one label are both renamed to the later of their two schema names.
\<close>

theorem historical_columns_counterexample:
  "8 \<le> length (columns nine_column_frame) \<and>
   index_name nine_column_frame = Some ''date'' \<and>
   map_sum id columns
     (fst (get_historical_data (sample_provider nine_column_frame)
        (StockData_init sample_keys ''MSFT'') empty_world)) = Inr (schema @ [''9. note'']) \<and>
   8 \<le> length (columns repeated_label_frame) \<and>
   index_name repeated_label_frame = Some ''date'' \<and>
   map_sum id columns
     (fst (get_historical_data (sample_provider repeated_label_frame)
        (StockData_init sample_keys ''MSFT'') empty_world)) =
     Inr [''date'', ''high'', ''high'', ''low'', ''close'', ''adjusted_close'', ''volume'',
          ''dividend_amount'', ''split_coefficient'']"
  by (simp add: get_historical_data_cases shape_historical_def sample_provider_def
      StockData_init_def nine_column_frame_def repeated_label_frame_def daily_frame_def schema_def
      rename_columns_dict_def columns_getitem_def dict_literal_def rename_def
      reset_index_def index_label_def)

lemma reset_index_cases:
  "reset_index df = Inl e \<longleftrightarrow> e = ValueError \<and> index_label df \<in> set (columns df)"
  by (auto simp add: reset_index_def)

text \<open>
  C2 (as amended). For every answer to the daily-adjusted call with fewer than eight
  columns, \<open>get_historical_data\<close> fails with IndexError and returns no table. It is not the
  only failure of the shaping: with eight columns or more, \<open>reset_index\<close> raises ValueError
  when the label of the index is a column of the renamed table, and there is no third
  failure.
\<close>

theorem historical_failure_paths:
  assumes "daily_adjusted prov (ts_key (ts self)) (ticker self) ''full'' = Inr (df, m)"
  shows "(length (columns df) < 8 \<longrightarrow>
            fst (get_historical_data prov self w) = Inl IndexError) \<and>
         (fst (get_historical_data prov self w) = Inl e \<longleftrightarrow>
            length (columns df) < 8 \<and> e = IndexError \<or>
            8 \<le> length (columns df) \<and> e = ValueError \<and>
            (\<exists>mapper. rename_columns_dict (columns df) = Inr mapper \<and>
               index_label (rename mapper df) \<in> set (columns (rename mapper df))))"
proof (cases "length (columns df) < 8")
  case True
  with assms show ?thesis
    by (auto simp add: get_historical_data_cases shape_historical_def
        rename_columns_dict_short)
next
  case False
  then have long: "8 \<le> length (columns df)" by simp
  then obtain mapper where "rename_columns_dict (columns df) = Inr mapper"
    by (simp add: rename_columns_dict_long)
  with assms False long show ?thesis
    by (auto simp add: get_historical_data_cases shape_historical_def reset_index_cases)
qed

theorem historical_failure_paths_witness:
  "length (columns seven_column_frame) < 8 \<and>
   fst (get_historical_data (sample_provider seven_column_frame)
        (StockData_init sample_keys ''MSFT'') empty_world) = Inl IndexError"
proof -
  have a: "daily_adjusted (sample_provider seven_column_frame)
      (ts_key (ts (StockData_init sample_keys ''MSFT'')))
      (ticker (StockData_init sample_keys ''MSFT'')) ''full'' = Inr (seven_column_frame, [])"
    by (simp add: sample_provider_def)
  have b: "length (columns seven_column_frame) < 8"
    by (simp add: seven_column_frame_def daily_frame_def)
  from historical_failure_paths [OF a, of empty_world IndexError] b
  show ?thesis by simp
qed

text \<open>
  A failure that is not the IndexError of a short answer: nine columns, the ninth
  labelled \<^verbatim>\<open>date\<close> like the index.
\<close>

theorem historical_failure_counterexample:
  "\<not> length (columns date_column_frame) < 8 \<and>
   index_name date_column_frame = Some ''date'' \<and>
   fst (get_historical_data (sample_provider date_column_frame)
        (StockData_init sample_keys ''MSFT'') empty_world) = Inl ValueError"
  by (simp add: get_historical_data_cases shape_historical_def sample_provider_def
      StockData_init_def date_column_frame_def daily_frame_def
      rename_columns_dict_def columns_getitem_def dict_literal_def rename_def
      reset_index_def index_label_def)

section \<open>The outcomes of a run\<close>

lemmas run_simps = save_to_database_def seq_def get_historical_data_cases
  get_fundamental_data_cases to_sql_cases create_engine_def pure_def

lemma run_refused:
  "\<not> accepts_url db conn \<Longrightarrow>
   save_to_database prov db self conn w = (Inl PersistenceError, w)"
  by (simp add: run_simps)

lemma get_historical_data_world:
  "snd (get_historical_data prov self w) = logged [Call DailyAdjusted (ticker self)] w"
  by (simp add: get_historical_data_cases)

lemma run_historical_failed:
  assumes "accepts_url db conn" and "fst (get_historical_data prov self w) = Inl e"
  shows "save_to_database prov db self conn w =
           (Inl e, logged [Call DailyAdjusted (ticker self)] w)"
proof -
  from assms(2) have "get_historical_data prov self w =
      (Inl e, logged [Call DailyAdjusted (ticker self)] w)"
    by (simp add: prod_eq_iff get_historical_data_world)
  with assms(1) show ?thesis
    by (simp add: save_to_database_def create_engine_def seq_def pure_def)
qed

lemma run_fundamental_failed:
  assumes "accepts_url db conn" and "fst (get_historical_data prov self w) = Inr hist"
    and "get_fundamental_data prov self (logged [Call DailyAdjusted (ticker self)] w) =
           (Inl e, w')"
  shows "save_to_database prov db self conn w = (Inl e, w')"
proof -
  from assms(2) have "get_historical_data prov self w =
      (Inr hist, logged [Call DailyAdjusted (ticker self)] w)"
    by (simp add: prod_eq_iff get_historical_data_world)
  with assms(1,3) show ?thesis
    by (simp add: save_to_database_def create_engine_def seq_def pure_def)
qed

lemma run_fetched:
  assumes "accepts_url db conn" and "fst (get_historical_data prov self w) = Inr hist"
    and "get_fundamental_data prov self (logged [Call DailyAdjusted (ticker self)] w) =
           (Inr (ov, bs, ic, cf), w')"
  shows "save_to_database prov db self conn w =
     seq (to_sql db hist ''historical_data'' \<lparr>url = conn\<rparr>) (\<lambda>_.
     seq (to_sql db ov ''microsoft'' \<lparr>url = conn\<rparr>) (\<lambda>_.
     seq (to_sql db bs ''balance_sheet_data'' \<lparr>url = conn\<rparr>) (\<lambda>_.
     seq (to_sql db ic ''income_statement_data'' \<lparr>url = conn\<rparr>) (\<lambda>_.
     to_sql db cf ''cash_flow_data'' \<lparr>url = conn\<rparr>)))) w'"
proof -
  from assms(2) have "get_historical_data prov self w =
      (Inr hist, logged [Call DailyAdjusted (ticker self)] w)"
    by (simp add: prod_eq_iff get_historical_data_world)
  with assms(1,3) show ?thesis
    by (simp add: save_to_database_def create_engine_def seq_def pure_def)
qed

text \<open>The fundamentals: the first endpoint that raises ends the fetch.\<close>

lemma get_fundamental_data_outcomes:
  obtains
    (some_raised) pre ep post e where
      "tl fetch_order = pre @ ep # post"
      "\<forall>x\<in>set pre. raised prov self x = None"
      "raised prov self ep = Some e"
      "get_fundamental_data prov self w =
         (Inl e, logged (map (\<lambda>x. Call x (ticker self)) (pre @ [ep])) w)"
  | (all_answered) ov bs ic cf where
      "\<forall>x\<in>set (tl fetch_order). raised prov self x = None"
      "get_fundamental_data prov self w =
         (Inr (ov, bs, ic, cf), logged (map (\<lambda>x. Call x (ticker self)) (tl fetch_order)) w)"
proof (cases "company_overview prov (fd_key (fd self)) (ticker self)")
  case (Inl e)
  show ?thesis
    by (rule some_raised [of "[]" CompanyOverview _ e])
       (simp_all add: fetch_order_def failure_def Inl get_fundamental_data_cases)
next
  case ov: (Inr ov)
  show ?thesis
  proof (cases "balance_sheet_quarterly prov (fd_key (fd self)) (ticker self)")
    case (Inl e)
    show ?thesis
      by (rule some_raised [of "[CompanyOverview]" BalanceSheetQuarterly _ e])
         (simp_all add: fetch_order_def failure_def ov Inl get_fundamental_data_cases)
  next
    case bs: (Inr bs)
    show ?thesis
    proof (cases "income_statement_quarterly prov (fd_key (fd self)) (ticker self)")
      case (Inl e)
      show ?thesis
        by (rule some_raised [of "[CompanyOverview, BalanceSheetQuarterly]"
              IncomeStatementQuarterly _ e])
           (simp_all add: fetch_order_def failure_def ov bs Inl get_fundamental_data_cases)
    next
      case ic: (Inr ic)
      show ?thesis
      proof (cases "cash_flow_quarterly prov (fd_key (fd self)) (ticker self)")
        case (Inl e)
        show ?thesis
          by (rule some_raised [of "[CompanyOverview, BalanceSheetQuarterly,
                IncomeStatementQuarterly]" CashFlowQuarterly _ e])
             (simp_all add: fetch_order_def failure_def ov bs ic Inl
                get_fundamental_data_cases)
      next
        case cf: (Inr cf)
        show ?thesis
          by (rule all_answered)
             (simp_all add: fetch_order_def failure_def ov bs ic cf
                get_fundamental_data_cases)
      qed
    qed
  qed
qed

text \<open>The writes: the first table the database rejects ends them.\<close>

lemma write_outcomes:
  assumes "r =
     seq (to_sql db hist ''historical_data'' eng) (\<lambda>_.
     seq (to_sql db ov ''microsoft'' eng) (\<lambda>_.
     seq (to_sql db bs ''balance_sheet_data'' eng) (\<lambda>_.
     seq (to_sql db ic ''income_statement_data'' eng) (\<lambda>_.
     to_sql db cf ''cash_flow_data'' eng)))) w"
  obtains pre rest where
    "table_order = pre @ rest"
    "\<forall>n\<in>set pre. \<not> rejects db (url eng) n"
    "rest \<noteq> [] \<longrightarrow> rejects db (url eng) (hd rest)"
    "r = (if rest = [] then Inr () else Inl PersistenceError,
          w\<lparr>tables := (\<lambda>x. if x \<in> set pre
                             then map_of (zip table_order (map sql_of [hist, ov, bs, ic, cf])) x
                             else if x \<in> set (take 1 rest)
                             then (case map_of (zip table_order
                                          (map sql_of [hist, ov, bs, ic, cf])) x of
                                     Some t \<Rightarrow>
                                       settle (failed_write db (url eng) x t) (tables w x)
                                   | None \<Rightarrow> tables w x)
                             else tables w x),
            trace := trace w @ map Write (pre @ take 1 rest)\<rparr>)"
proof (cases "rejects db (url eng) ''historical_data''")
  case True
  show ?thesis
    by (rule that [of "[]" table_order])
       (simp_all add: assms True table_order_def to_sql_cases seq_def logged_def
          fun_eq_iff)
next
  case r1: False
  show ?thesis
  proof (cases "rejects db (url eng) ''microsoft''")
    case True
    show ?thesis
      by (rule that [of "take 1 table_order" "drop 1 table_order"])
         (simp_all add: assms r1 True table_order_def to_sql_cases seq_def logged_def
            fun_eq_iff)
  next
    case r2: False
    show ?thesis
    proof (cases "rejects db (url eng) ''balance_sheet_data''")
      case True
      show ?thesis
        by (rule that [of "take 2 table_order" "drop 2 table_order"])
           (simp_all add: assms r1 r2 True table_order_def to_sql_cases seq_def logged_def
              fun_eq_iff)
    next
      case r3: False
      show ?thesis
      proof (cases "rejects db (url eng) ''income_statement_data''")
        case True
        show ?thesis
          by (rule that [of "take 3 table_order" "drop 3 table_order"])
             (simp_all add: assms r1 r2 r3 True table_order_def to_sql_cases seq_def
                logged_def fun_eq_iff)
      next
        case r4: False
        show ?thesis
        proof (cases "rejects db (url eng) ''cash_flow_data''")
          case True
          show ?thesis
            by (rule that [of "take 4 table_order" "drop 4 table_order"])
               (simp_all add: assms r1 r2 r3 r4 True table_order_def to_sql_cases seq_def
                  logged_def fun_eq_iff)
        next
          case r5: False
          show ?thesis
            by (rule that [of table_order "[]"])
               (simp_all add: assms r1 r2 r3 r4 r5 table_order_def to_sql_cases seq_def
                  logged_def fun_eq_iff)
        qed
      qed
    qed
  qed
qed

lemma fst_get_fundamental_data:
  "fst (get_fundamental_data prov self w) = fst (get_fundamental_data prov self w0)"
  by (simp add: get_fundamental_data_cases split: sum.splits)

lemma every_endpoint: "ep \<in> set fetch_order"
  by (cases ep) (simp_all add: fetch_order_def)

text \<open>
  Every run of \<open>save_to_database\<close> is of one of four kinds: the engine is refused; a
  provider call raises; the daily series cannot be shaped; or all is fetched and the
  tables are written up to the first one the database rejects.
\<close>

lemma run_outcomes:
  obtains
    (refused)
      "\<not> accepts_url db conn"
      "save_to_database prov db self conn w = (Inl PersistenceError, w)"
  | (fetch_failed) pre ep post e where
      "accepts_url db conn"
      "fetch_order = pre @ ep # post"
      "\<forall>x\<in>set pre. raised prov self x = None"
      "raised prov self ep = Some e"
      "save_to_database prov db self conn w =
         (Inl e, logged (map (\<lambda>x. Call x (ticker self)) (pre @ [ep])) w)"
  | (shape_failed) df m e where
      "accepts_url db conn"
      "daily_adjusted prov (ts_key (ts self)) (ticker self) ''full'' = Inr (df, m)"
      "shape_historical df = Inl e"
      "save_to_database prov db self conn w =
         (Inl e, logged [Call DailyAdjusted (ticker self)] w)"
  | (fetched) hist ov bs ic cf pre rest where
      "accepts_url db conn"
      "\<forall>x. raised prov self x = None"
      "fst (get_historical_data prov self w) = Inr hist"
      "fst (get_fundamental_data prov self w) = Inr (ov, bs, ic, cf)"
      "table_order = pre @ rest"
      "\<forall>n\<in>set pre. \<not> rejects db conn n"
      "rest \<noteq> [] \<longrightarrow> rejects db conn (hd rest)"
      "save_to_database prov db self conn w =
         (if rest = [] then Inr () else Inl PersistenceError,
          w\<lparr>tables := (\<lambda>x. if x \<in> set pre
                             then map_of (zip table_order (map sql_of [hist, ov, bs, ic, cf])) x
                             else if x \<in> set (take 1 rest)
                             then (case map_of (zip table_order
                                          (map sql_of [hist, ov, bs, ic, cf])) x of
                                     Some t \<Rightarrow> settle (failed_write db conn x t) (tables w x)
                                   | None \<Rightarrow> tables w x)
                             else tables w x),
            trace := trace w @ map (\<lambda>x. Call x (ticker self)) fetch_order @
                     map Write (pre @ take 1 rest)\<rparr>)"
proof (cases "accepts_url db conn")
  case False
  then show ?thesis
    by (rule refused) (simp add: run_refused False)
next
  case ok: True
  show ?thesis
  proof (cases "daily_adjusted prov (ts_key (ts self)) (ticker self) ''full''")
    case (Inl e)
    then have "fst (get_historical_data prov self w) = Inl e"
      by (simp add: get_historical_data_cases)
    with ok have "save_to_database prov db self conn w =
        (Inl e, logged [Call DailyAdjusted (ticker self)] w)"
      by (rule run_historical_failed)
    then show ?thesis
      by (intro fetch_failed [of "[]" DailyAdjusted _ e])
         (simp_all add: ok fetch_order_def failure_def Inl)
  next
    case daily: (Inr r)
    then have none: "raised prov self DailyAdjusted = None"
      by (simp add: failure_def)
    show ?thesis
    proof (cases "shape_historical (fst r)")
      case (Inl e)
      with daily have "fst (get_historical_data prov self w) = Inl e"
        by (simp add: get_historical_data_cases)
      with ok have "save_to_database prov db self conn w =
          (Inl e, logged [Call DailyAdjusted (ticker self)] w)"
        by (rule run_historical_failed)
      then show ?thesis
        by (intro shape_failed [of "fst r" "snd r" e]) (simp_all add: ok daily Inl)
    next
      case (Inr hist)
      with daily have hist: "fst (get_historical_data prov self w) = Inr hist"
        by (simp add: get_historical_data_cases)
      let ?w1 = "logged [Call DailyAdjusted (ticker self)] w"
      show ?thesis
      proof (cases rule: get_fundamental_data_outcomes [of prov self ?w1])
        case (some_raised pre ep post e)
        from ok hist some_raised(4) have "save_to_database prov db self conn w =
            (Inl e, logged (map (\<lambda>x. Call x (ticker self)) (pre @ [ep])) ?w1)"
          by (rule run_fundamental_failed)
        then show ?thesis
          using some_raised(1,2,3) none
          by (intro fetch_failed [of "DailyAdjusted # pre" ep post e])
             (simp_all add: ok fetch_order_def)
      next
        case (all_answered ov bs ic cf)
        have all: "\<forall>x. raised prov self x = None"
        proof
          fix x
          show "raised prov self x = None"
            using every_endpoint [of x] all_answered(1) none
            by (auto simp add: fetch_order_def)
        qed
        have fund: "fst (get_fundamental_data prov self w) = Inr (ov, bs, ic, cf)"
          using all_answered(2) fst_get_fundamental_data [of prov self w ?w1] by simp
        from run_fetched [OF ok hist all_answered(2)]
        obtain pre rest where w:
          "table_order = pre @ rest"
          "\<forall>n\<in>set pre. \<not> rejects db (url \<lparr>url = conn\<rparr>) n"
          "rest \<noteq> [] \<longrightarrow> rejects db (url \<lparr>url = conn\<rparr>) (hd rest)"
          "save_to_database prov db self conn w =
            (if rest = [] then Inr () else Inl PersistenceError,
             (logged (map (\<lambda>x. Call x (ticker self)) (tl fetch_order)) ?w1)
               \<lparr>tables := (\<lambda>x. if x \<in> set pre
                   then map_of (zip table_order (map sql_of [hist, ov, bs, ic, cf])) x
                   else if x \<in> set (take 1 rest)
                   then (case map_of (zip table_order
                                (map sql_of [hist, ov, bs, ic, cf])) x of
                           Some t \<Rightarrow>
                             settle (failed_write db (url \<lparr>url = conn\<rparr>) x t)
                               (tables (logged (map (\<lambda>x. Call x (ticker self))
                                  (tl fetch_order)) ?w1) x)
                         | None \<Rightarrow>
                             tables (logged (map (\<lambda>x. Call x (ticker self))
                               (tl fetch_order)) ?w1) x)
                   else tables (logged (map (\<lambda>x. Call x (ticker self)) (tl fetch_order)) ?w1) x),
                trace := trace (logged (map (\<lambda>x. Call x (ticker self)) (tl fetch_order)) ?w1)
                   @ map Write (pre @ take 1 rest)\<rparr>)"
          by (rule write_outcomes)
        show ?thesis
          using w
          by (intro fetched [of hist ov bs ic cf pre rest])
             (simp_all add: ok all hist fund fetch_order_def logged_def
                cong: if_cong option.case_cong)
      qed
    qed
  qed
qed

lemma written_append [simp]: "written (es @ es') = written es @ written es'"
  by (induction es rule: written.induct) simp_all

lemma written_calls [simp]: "written (map (\<lambda>x. Call x s) eps) = []"
  by (induction eps) simp_all

lemma written_writes [simp]: "written (map Write ns) = ns"
  by (induction ns) simp_all

lemma called_append [simp]: "called (es @ es') = called es @ called es'"
  by (induction es rule: called.induct) simp_all

lemma called_calls [simp]: "called (map (\<lambda>x. Call x s) eps) = eps"
  by (induction eps) simp_all

lemma called_writes [simp]: "called (map Write ns) = []"
  by (induction ns) simp_all

lemma distinct_calls:
  "distinct eps \<Longrightarrow> distinct (map (\<lambda>x. Call x s) eps)"
  by (simp add: distinct_map inj_on_def)

lemma fetched_no_raise:
  assumes "fst (get_historical_data prov self w) = Inr hist"
    and "fst (get_fundamental_data prov self w) = Inr f"
  shows "raised prov self x = None"
  using assms
  by (cases x)
     (simp_all add: get_historical_data_cases get_fundamental_data_cases failure_def
        split: sum.splits)

lemma first_rejected_unique:
  assumes "xs = pre @ n # post" and "\<forall>x\<in>set pre. \<not> P x" and "P n"
    and "xs = pre' @ rest'" and "\<forall>x\<in>set pre'. \<not> P x" and "rest' \<noteq> [] \<longrightarrow> P (hd rest')"
  shows "pre' = pre \<and> rest' = n # post"
proof -
  have a: "takeWhile (\<lambda>x. \<not> P x) xs = pre"
    using assms(1,2,3) by simp
  have b: "takeWhile (\<lambda>x. \<not> P x) xs = pre'"
  proof (cases rest')
    case Nil
    with assms(1,4) have "n \<in> set pre'" by auto
    with assms(3,5) show ?thesis by blast
  next
    case (Cons h t)
    with assms(4,5,6) show ?thesis by simp
  qed
  from a b have "pre' = pre" by simp
  with assms(1,4) show ?thesis by simp
qed

lemma fst_get_historical_data:
  "fst (get_historical_data prov self w) = fst (get_historical_data prov self w0)"
  by (simp add: get_historical_data_cases)

text \<open>A run returns normally exactly when nothing on its way raises.\<close>

lemma run_succeeded:
  assumes "fst (save_to_database prov db self conn w) = Inr ()"
  obtains hist ov bs ic cf where
    "accepts_url db conn"
    "\<forall>n\<in>set table_order. \<not> rejects db conn n"
    "fst (get_historical_data prov self w) = Inr hist"
    "fst (get_fundamental_data prov self w) = Inr (ov, bs, ic, cf)"
    "save_to_database prov db self conn w =
       (Inr (),
        w\<lparr>tables := (\<lambda>x. if x \<in> set table_order
                           then map_of (zip table_order (map sql_of [hist, ov, bs, ic, cf])) x
                           else tables w x),
          trace := trace w @ map (\<lambda>x. Call x (ticker self)) fetch_order @
                   map Write table_order\<rparr>)"
proof (cases rule: run_outcomes [of db conn prov self w])
  case refused
  with assms show ?thesis by simp
next
  case (fetch_failed pre ep post e)
  with assms show ?thesis by simp
next
  case (shape_failed df m e)
  with assms show ?thesis by simp
next
  case (fetched hist ov bs ic cf pre rest)
  from assms fetched(8) have "rest = []"
    by (simp split: if_splits)
  with fetched(5) have "pre = table_order" by simp
  with fetched \<open>rest = []\<close> show ?thesis
    by (intro that [of hist ov bs ic cf]) (simp_all cong: if_cong)
qed

lemma run_succeeds:
  assumes "accepts_url db conn"
    and "\<forall>n\<in>set table_order. \<not> rejects db conn n"
    and "fst (get_historical_data prov self w) = Inr hist"
    and "fst (get_fundamental_data prov self w) = Inr (ov, bs, ic, cf)"
  shows "save_to_database prov db self conn w =
       (Inr (),
        w\<lparr>tables := (\<lambda>x. if x \<in> set table_order
                           then map_of (zip table_order (map sql_of [hist, ov, bs, ic, cf])) x
                           else tables w x),
          trace := trace w @ map (\<lambda>x. Call x (ticker self)) fetch_order @
                   map Write table_order\<rparr>)"
proof (cases rule: run_outcomes [of db conn prov self w])
  case refused
  with assms(1) show ?thesis by simp
next
  case (fetch_failed pre ep post e)
  with fetched_no_raise [OF assms(3,4), of ep] show ?thesis by simp
next
  case (shape_failed df m e)
  with assms(3) show ?thesis by (simp add: get_historical_data_cases)
next
  case (fetched hist' ov' bs' ic' cf' pre rest)
  have "rest = []"
  proof (rule ccontr)
    assume "rest \<noteq> []"
    then have "hd rest \<in> set (pre @ rest)" by simp
    with fetched(5,7) \<open>rest \<noteq> []\<close>
    have "hd rest \<in> set table_order" "rejects db conn (hd rest)"
      by simp_all
    with assms(2) show False by blast
  qed
  with fetched(5) have "pre = table_order" by simp
  from fetched(3,4) assms(3,4) have same:
    "hist' = hist" "ov' = ov" "bs' = bs" "ic' = ic" "cf' = cf"
    by simp_all
  from fetched(8) show ?thesis
    unfolding same \<open>rest = []\<close> \<open>pre = table_order\<close> by (simp cong: if_cong)
qed

section \<open>The sample runs\<close>

lemma StockData_init_simps [simp]:
  "ticker (StockData_init keys tkr) = tkr"
  "ts_key (ts (StockData_init keys tkr)) = api_key keys"
  "fd_key (fd (StockData_init keys tkr)) = api_key keys"
  by (simp_all add: StockData_init_def)

lemma shape_daily_frame:
  "shape_historical daily_frame =
     Inr \<lparr>index_name = None, index = RangeIndex 2, columns = schema,
          data = map2 (#) (index daily_frame) (data daily_frame)\<rparr>"
  by (simp add: shape_historical_def daily_frame_def schema_def rename_columns_dict_def
      columns_getitem_def dict_literal_def rename_def reset_index_def index_label_def numeral_2_eq_2)

lemma sample_historical:
  "fst (get_historical_data (sample_provider daily_frame) self w) =
     Inr \<lparr>index_name = None, index = RangeIndex 2, columns = schema,
          data = map2 (#) (index daily_frame) (data daily_frame)\<rparr>"
  by (simp add: get_historical_data_cases sample_provider_def shape_daily_frame)

lemma sample_fundamental:
  "fst (get_fundamental_data (sample_provider df) self w) =
     Inr (DataFrame_of_dict (overview_record (ticker self)), from_records four_quarters,
          from_records four_quarters, from_records four_quarters)"
  by (simp add: get_fundamental_data_cases sample_provider_def)

lemma sample_run:
  "save_to_database (sample_provider daily_frame) sample_database self conn w =
       (Inr (),
        w\<lparr>tables := (\<lambda>x. if x \<in> set table_order
                           then map_of (zip table_order (map sql_of
                             [\<lparr>index_name = None, index = RangeIndex 2, columns = schema,
                               data = map2 (#) (index daily_frame) (data daily_frame)\<rparr>,
                              DataFrame_of_dict (overview_record (ticker self)),
                              from_records four_quarters, from_records four_quarters,
                              from_records four_quarters])) x
                           else tables w x),
          trace := trace w @ map (\<lambda>x. Call x (ticker self)) fetch_order @
                   map Write table_order\<rparr>)"
  by (rule run_succeeds)
     (simp_all add: sample_database_def sample_historical sample_fundamental)

lemma failing_run:
  "save_to_database failing_provider sample_database self conn w =
     (Inl (ProviderError ''rate limit''),
      logged [Call DailyAdjusted (ticker self), Call CompanyOverview (ticker self),
              Call BalanceSheetQuarterly (ticker self)] w)"
  by (simp add: run_simps failing_provider_def sample_provider_def sample_database_def
      shape_daily_frame)

lemma picky_run:
  "save_to_database (sample_provider daily_frame) picky_database self conn w =
     (Inl PersistenceError,
      w\<lparr>tables := (tables w)
            (''historical_data'' \<mapsto>
               sql_of \<lparr>index_name = None, index = RangeIndex 2, columns = schema,
                       data = map2 (#) (index daily_frame) (data daily_frame)\<rparr>,
             ''microsoft'' \<mapsto> sql_of (DataFrame_of_dict (overview_record (ticker self)))),
         trace := trace w @ map (\<lambda>x. Call x (ticker self)) fetch_order @
                  map Write [''historical_data'', ''microsoft'', ''balance_sheet_data'']\<rparr>)"
  by (simp add: run_simps sample_provider_def picky_database_def shape_daily_frame
      fetch_order_def logged_def)

lemma recreating_run:
  "save_to_database (sample_provider daily_frame) recreating_database self conn w =
     (Inl PersistenceError,
      w\<lparr>tables := (tables w)
            (''historical_data'' \<mapsto>
               sql_of \<lparr>index_name = None, index = RangeIndex 2, columns = schema,
                       data = map2 (#) (index daily_frame) (data daily_frame)\<rparr>,
             ''microsoft'' \<mapsto> sql_of (DataFrame_of_dict (overview_record (ticker self))),
             ''balance_sheet_data'' \<mapsto> (sql_of (from_records four_quarters))\<lparr>sql_rows := []\<rparr>),
         trace := trace w @ map (\<lambda>x. Call x (ticker self)) fetch_order @
                  map Write [''historical_data'', ''microsoft'', ''balance_sheet_data'']\<rparr>)"
  by (simp add: run_simps sample_provider_def recreating_database_def shape_daily_frame
      fetch_order_def logged_def)

section \<open>Persisting the tables\<close>

text \<open>
  C3. Running \<open>save_to_database\<close> a second time against the same provider answers
  leaves every table as the first run left it. Each write replaces the table: after a run
  that returns normally the five destination tables hold what was fetched, whatever they
  held before, so two runs from different worlds agree on them.
\<close>

theorem save_twice_same_tables:
  "tables (snd (save_to_database prov db self conn
             (snd (save_to_database prov db self conn w)))) =
   tables (snd (save_to_database prov db self conn w)) \<and>
   (fst (save_to_database prov db self conn w) = Inr () \<and> n \<in> set table_order \<longrightarrow>
      tables (snd (save_to_database prov db self conn w)) n =
      tables (snd (save_to_database prov db self conn w2)) n)"
  by (simp add: run_simps table_order_def split: sum.splits prod.splits)

theorem save_twice_same_tables_witness:
  "fst (save_to_database (sample_provider daily_frame) sample_database
          (StockData_init sample_keys ''MSFT'') ''postgresql://localhost/stocks''
          stale_world) = Inr () \<and>
   ''microsoft'' \<in> set table_order \<and>
   tables stale_world ''microsoft'' =
     Some \<lparr>sql_columns = [''Symbol''], sql_rows = [[Val ''IBM'']]\<rparr> \<and>
   tables (snd (save_to_database (sample_provider daily_frame) sample_database
          (StockData_init sample_keys ''MSFT'') ''postgresql://localhost/stocks''
          stale_world)) ''microsoft'' =
     Some \<lparr>sql_columns = [''Symbol'', ''Currency''],
           sql_rows = [[Val ''MSFT'', Val ''USD'']]\<rparr> \<and>
   tables (snd (save_to_database (sample_provider daily_frame) sample_database
          (StockData_init sample_keys ''MSFT'') ''postgresql://localhost/stocks''
          empty_world)) ''microsoft'' =
     Some \<lparr>sql_columns = [''Symbol'', ''Currency''],
           sql_rows = [[Val ''MSFT'', Val ''USD'']]\<rparr>"
proof -
  have a: "fst (save_to_database (sample_provider daily_frame) sample_database
          (StockData_init sample_keys ''MSFT'') ''postgresql://localhost/stocks''
          stale_world) = Inr ()"
    by (simp add: sample_run)
  have b: "''microsoft'' \<in> set table_order"
    by (simp add: table_order_def)
  have c: "tables (snd (save_to_database (sample_provider daily_frame) sample_database
          (StockData_init sample_keys ''MSFT'') ''postgresql://localhost/stocks''
          stale_world)) ''microsoft'' =
     Some \<lparr>sql_columns = [''Symbol'', ''Currency''],
           sql_rows = [[Val ''MSFT'', Val ''USD'']]\<rparr>"
    by (simp add: sample_run table_order_def sql_of_def DataFrame_of_dict_def
        overview_record_def)
  from save_twice_same_tables [of "sample_provider daily_frame" sample_database
      "StockData_init sample_keys ''MSFT''" "''postgresql://localhost/stocks''"
      stale_world "''microsoft''" empty_world] a b c
  show ?thesis
    by (simp add: stale_world_def)
qed

text \<open>
  C4. In a run of \<open>save_to_database\<close> in which a provider call raises, that exception
  is what the run raises; no table is written and none is changed; the failing call is
  the last thing the run does, and no call is made twice.
\<close>

theorem fetch_error_propagates:
  assumes "Call ep (ticker self) \<in> set (events prov db self conn w)"
    and "raised prov self ep = Some e"
  shows "fst (save_to_database prov db self conn w) = Inl e \<and>
         tables (snd (save_to_database prov db self conn w)) = tables w \<and>
         written (events prov db self conn w) = [] \<and>
         last (events prov db self conn w) = Call ep (ticker self) \<and>
         distinct (events prov db self conn w)"
proof (cases rule: run_outcomes [of db conn prov self w])
  case refused
  then have "events prov db self conn w = []"
    by (simp add: events_def)
  with assms(1) show ?thesis by simp
next
  case (fetch_failed pre ep' post e')
  then have ev: "events prov db self conn w = map (\<lambda>x. Call x (ticker self)) (pre @ [ep'])"
    by (simp add: events_def)
  with assms(1) have "ep \<in> set pre \<or> ep = ep'"
    by auto
  with assms(2) fetch_failed(3,4) have same: "ep = ep'" "e = e'"
    by auto
  have "distinct fetch_order"
    by (simp add: fetch_order_def)
  then have "distinct (pre @ ep' # post)"
    by (simp only: fetch_failed(2))
  then have "distinct (pre @ [ep'])"
    by simp
  then have "distinct (map (\<lambda>x. Call x (ticker self)) (pre @ [ep']))"
    by (rule distinct_calls)
  with ev same fetch_failed(5) show ?thesis
    by simp
next
  case (shape_failed df m e')
  then have "events prov db self conn w = [Call DailyAdjusted (ticker self)]"
    by (simp add: events_def)
  with assms(1) have "ep = DailyAdjusted"
    by simp
  with assms(2) shape_failed(2) show ?thesis
    by (simp add: failure_def)
next
  case (fetched hist ov bs ic cf pre rest)
  with assms(2) show ?thesis by simp
qed

theorem fetch_error_propagates_witness:
  "events failing_provider sample_database (StockData_init sample_keys ''MSFT'') ''postgresql://localhost/stocks'' empty_world =
     [Call DailyAdjusted ''MSFT'', Call CompanyOverview ''MSFT'',
      Call BalanceSheetQuarterly ''MSFT''] \<and>
   raised failing_provider (StockData_init sample_keys ''MSFT'') BalanceSheetQuarterly =
     Some (ProviderError ''rate limit'') \<and>
   fst (save_to_database failing_provider sample_database (StockData_init sample_keys ''MSFT'') ''postgresql://localhost/stocks'' empty_world) =
     Inl (ProviderError ''rate limit'') \<and>
   tables (snd (save_to_database failing_provider sample_database (StockData_init sample_keys ''MSFT'') ''postgresql://localhost/stocks'' empty_world)) =
     tables empty_world"
proof -
  have e: "events failing_provider sample_database (StockData_init sample_keys ''MSFT'') ''postgresql://localhost/stocks'' empty_world =
     [Call DailyAdjusted ''MSFT'', Call CompanyOverview ''MSFT'',
      Call BalanceSheetQuarterly ''MSFT'']"
    by (simp add: events_def failing_run)
  have a: "Call BalanceSheetQuarterly (ticker (StockData_init sample_keys ''MSFT'')) \<in>
      set (events failing_provider sample_database (StockData_init sample_keys ''MSFT'') ''postgresql://localhost/stocks'' empty_world)"
    by (simp add: e)
  have b: "raised failing_provider (StockData_init sample_keys ''MSFT'') BalanceSheetQuarterly =
     Some (ProviderError ''rate limit'')"
    by (simp add: failing_provider_def failure_def)
  from fetch_error_propagates [OF a b] e b show ?thesis
    by simp
qed

text \<open>
  C5. In every run of \<open>save_to_database\<close> the provider calls all come before the table
  writes, and a write happens only after all five endpoints have been called and have
  answered. So if any of the five endpoints raises, no table is written, the tables are
  as they were, and the run raises.
\<close>

theorem fetches_before_writes:
  "events prov db self conn w =
     map (\<lambda>x. Call x (ticker self)) (called (events prov db self conn w)) @
     map Write (written (events prov db self conn w)) \<and>
   (written (events prov db self conn w) \<noteq> [] \<longrightarrow>
      called (events prov db self conn w) = fetch_order \<and>
      (\<forall>x. raised prov self x = None)) \<and>
   (raised prov self ep = Some e \<longrightarrow>
      written (events prov db self conn w) = [] \<and>
      tables (snd (save_to_database prov db self conn w)) = tables w \<and>
      (\<exists>e'. fst (save_to_database prov db self conn w) = Inl e'))"
proof (cases rule: run_outcomes [of db conn prov self w])
  case refused
  then have "events prov db self conn w = []"
    by (simp add: events_def)
  with refused show ?thesis by simp
next
  case (fetch_failed pre ep' post e')
  then have "events prov db self conn w = map (\<lambda>x. Call x (ticker self)) (pre @ [ep'])"
    by (simp add: events_def)
  with fetch_failed(5) show ?thesis by simp
next
  case (shape_failed df m e')
  then have "events prov db self conn w = map (\<lambda>x. Call x (ticker self)) [DailyAdjusted]"
    by (simp add: events_def)
  with shape_failed(4) show ?thesis by simp
next
  case (fetched hist ov bs ic cf pre rest)
  then have "events prov db self conn w =
      map (\<lambda>x. Call x (ticker self)) fetch_order @ map Write (pre @ take 1 rest)"
    by (simp add: events_def)
  with fetched(2) show ?thesis by simp
qed

theorem fetches_before_writes_witness:
  "raised failing_provider (StockData_init sample_keys ''MSFT'') BalanceSheetQuarterly =
     Some (ProviderError ''rate limit'') \<and>
   written (events failing_provider sample_database (StockData_init sample_keys ''MSFT'') ''postgresql://localhost/stocks'' stale_world) = [] \<and>
   tables (snd (save_to_database failing_provider sample_database (StockData_init sample_keys ''MSFT'') ''postgresql://localhost/stocks'' stale_world)) =
     tables stale_world \<and>
   written (events (sample_provider daily_frame) sample_database (StockData_init sample_keys ''MSFT'') ''postgresql://localhost/stocks'' stale_world) = table_order \<and>
   called (events (sample_provider daily_frame) sample_database (StockData_init sample_keys ''MSFT'') ''postgresql://localhost/stocks'' stale_world) = fetch_order"
proof -
  have b: "raised failing_provider (StockData_init sample_keys ''MSFT'') BalanceSheetQuarterly =
     Some (ProviderError ''rate limit'')"
    by (simp add: failing_provider_def failure_def)
  have c: "written (events (sample_provider daily_frame) sample_database (StockData_init sample_keys ''MSFT'') ''postgresql://localhost/stocks'' stale_world) = table_order"
    by (simp add: events_def sample_run)
  then have d: "written (events (sample_provider daily_frame) sample_database (StockData_init sample_keys ''MSFT'') ''postgresql://localhost/stocks'' stale_world) \<noteq> []"
    by (simp add: table_order_def)
  from fetches_before_writes [of failing_provider sample_database "StockData_init sample_keys ''MSFT''"
      "''postgresql://localhost/stocks''" stale_world BalanceSheetQuarterly "ProviderError ''rate limit''"]
    fetches_before_writes [of "sample_provider daily_frame" sample_database "StockData_init sample_keys ''MSFT''"
      "''postgresql://localhost/stocks''" stale_world BalanceSheetQuarterly "ProviderError ''rate limit''"]
    b c d
  show ?thesis
    by simp
qed

text \<open>
  C6 (as amended). A run of \<open>save_to_database\<close> that returns normally writes the five
  tables in the order historical data, overview, balance sheet, income statement, cash
  flow, after the five fetches, and each table then holds its frame. When the write of a
  table fails, the run raises; the tables before it in that order hold their new frames;
  the tables after it are as they were; and the table whose write failed is what the
  failed write left of it, which is the table as it was only where the database undoes
  the write.
\<close>

theorem writes_in_order:
  assumes "accepts_url db conn"
    and "fst (get_historical_data prov self w) = Inr hist"
    and "fst (get_fundamental_data prov self w) = Inr (ov, bs, ic, cf)"
  shows "(fst (save_to_database prov db self conn w) = Inr () \<longrightarrow>
            events prov db self conn w =
              map (\<lambda>x. Call x (ticker self)) fetch_order @ map Write table_order \<and>
            map (tables (snd (save_to_database prov db self conn w))) table_order =
              map (\<lambda>df. Some (sql_of df)) [hist, ov, bs, ic, cf]) \<and>
         (table_order = pre @ n # post \<and> (\<forall>x\<in>set pre. \<not> rejects db conn x) \<and>
          rejects db conn n \<and>
          map_of (zip table_order (map sql_of [hist, ov, bs, ic, cf])) n = Some t \<longrightarrow>
            fst (save_to_database prov db self conn w) = Inl PersistenceError \<and>
            written (events prov db self conn w) = pre @ [n] \<and>
            (\<forall>x\<in>set pre. tables (snd (save_to_database prov db self conn w)) x =
               map_of (zip table_order (map sql_of [hist, ov, bs, ic, cf])) x) \<and>
            tables (snd (save_to_database prov db self conn w)) n =
               settle (failed_write db conn n t) (tables w n) \<and>
            (\<forall>x\<in>set post. tables (snd (save_to_database prov db self conn w)) x =
               tables w x))"
proof (cases rule: run_outcomes [of db conn prov self w])
  case refused
  with assms(1) show ?thesis by simp
next
  case (fetch_failed pre' ep post' e)
  with fetched_no_raise [OF assms(2,3), of ep] show ?thesis by simp
next
  case (shape_failed df m e)
  with assms(2) show ?thesis by (simp add: get_historical_data_cases)
next
  case (fetched hist' ov' bs' ic' cf' pre' rest')
  from fetched(3,4) assms(2,3) have same:
    "hist' = hist" "ov' = ov" "bs' = bs" "ic' = ic" "cf' = cf"
    by simp_all
  note run = fetched(8) [unfolded same]
  have ev: "events prov db self conn w =
      map (\<lambda>x. Call x (ticker self)) fetch_order @ map Write (pre' @ take 1 rest')"
    using run by (simp add: events_def)
  have first: "fst (save_to_database prov db self conn w) = Inr () \<longrightarrow>
            events prov db self conn w =
              map (\<lambda>x. Call x (ticker self)) fetch_order @ map Write table_order \<and>
            map (tables (snd (save_to_database prov db self conn w))) table_order =
              map (\<lambda>df. Some (sql_of df)) [hist, ov, bs, ic, cf]"
  proof
    assume "fst (save_to_database prov db self conn w) = Inr ()"
    with run have "rest' = []" by (simp split: if_splits)
    with fetched(5) have "pre' = table_order" by simp
    with run ev \<open>rest' = []\<close> show "events prov db self conn w =
              map (\<lambda>x. Call x (ticker self)) fetch_order @ map Write table_order \<and>
            map (tables (snd (save_to_database prov db self conn w))) table_order =
              map (\<lambda>df. Some (sql_of df)) [hist, ov, bs, ic, cf]"
      by (simp add: table_order_def)
  qed
  have second: "table_order = pre @ n # post \<and> (\<forall>x\<in>set pre. \<not> rejects db conn x) \<and>
          rejects db conn n \<and>
          map_of (zip table_order (map sql_of [hist, ov, bs, ic, cf])) n = Some t \<longrightarrow>
            fst (save_to_database prov db self conn w) = Inl PersistenceError \<and>
            written (events prov db self conn w) = pre @ [n] \<and>
            (\<forall>x\<in>set pre. tables (snd (save_to_database prov db self conn w)) x =
               map_of (zip table_order (map sql_of [hist, ov, bs, ic, cf])) x) \<and>
            tables (snd (save_to_database prov db self conn w)) n =
               settle (failed_write db conn n t) (tables w n) \<and>
            (\<forall>x\<in>set post. tables (snd (save_to_database prov db self conn w)) x =
               tables w x)"
  proof
    assume h: "table_order = pre @ n # post \<and> (\<forall>x\<in>set pre. \<not> rejects db conn x) \<and>
          rejects db conn n \<and>
          map_of (zip table_order (map sql_of [hist, ov, bs, ic, cf])) n = Some t"
    then have "pre' = pre \<and> rest' = n # post"
      using fetched(5,6,7)
      by (intro first_rejected_unique [of table_order pre n post "rejects db conn"]) simp_all
    then have eq: "pre' = pre" "rest' = n # post" by simp_all
    have "distinct table_order" by (simp add: table_order_def)
    then have "distinct (pre @ n # post)" using h by simp
    then have apart: "\<forall>x\<in>set post. x \<notin> set pre \<and> x \<noteq> n" "n \<notin> set pre"
      by auto
    from h have t: "map_of (zip table_order (map sql_of [hist, ov, bs, ic, cf])) n = Some t"
      by simp
    from run ev eq apart t show "fst (save_to_database prov db self conn w) = Inl PersistenceError \<and>
            written (events prov db self conn w) = pre @ [n] \<and>
            (\<forall>x\<in>set pre. tables (snd (save_to_database prov db self conn w)) x =
               map_of (zip table_order (map sql_of [hist, ov, bs, ic, cf])) x) \<and>
            tables (snd (save_to_database prov db self conn w)) n =
               settle (failed_write db conn n t) (tables w n) \<and>
            (\<forall>x\<in>set post. tables (snd (save_to_database prov db self conn w)) x =
               tables w x)"
      by simp
  qed
  from first second show ?thesis by blast
qed

theorem writes_in_order_witness:
  "fst (save_to_database (sample_provider daily_frame) sample_database (StockData_init sample_keys ''MSFT'') ''postgresql://localhost/stocks'' stale_world) = Inr () \<and>
   events (sample_provider daily_frame) sample_database (StockData_init sample_keys ''MSFT'') ''postgresql://localhost/stocks'' stale_world =
     map (\<lambda>x. Call x ''MSFT'') fetch_order @ map Write table_order \<and>
   rejects picky_database ''postgresql://localhost/stocks'' ''balance_sheet_data'' \<and>
   fst (save_to_database (sample_provider daily_frame) picky_database (StockData_init sample_keys ''MSFT'') ''postgresql://localhost/stocks'' stale_world) = Inl PersistenceError \<and>
   written (events (sample_provider daily_frame) picky_database (StockData_init sample_keys ''MSFT'') ''postgresql://localhost/stocks'' stale_world) =
     [''historical_data'', ''microsoft'', ''balance_sheet_data''] \<and>
   tables (snd (save_to_database (sample_provider daily_frame) picky_database (StockData_init sample_keys ''MSFT'') ''postgresql://localhost/stocks'' stale_world)) ''microsoft'' =
     Some \<lparr>sql_columns = [''Symbol'', ''Currency''], sql_rows = [[Val ''MSFT'', Val ''USD'']]\<rparr> \<and>
   tables (snd (save_to_database (sample_provider daily_frame) picky_database (StockData_init sample_keys ''MSFT'') ''postgresql://localhost/stocks'' stale_world))
     ''balance_sheet_data'' = tables stale_world ''balance_sheet_data'' \<and>
   tables (snd (save_to_database (sample_provider daily_frame) picky_database (StockData_init sample_keys ''MSFT'') ''postgresql://localhost/stocks'' stale_world))
     ''income_statement_data'' = None"
proof -
  let ?hist = "\<lparr>index_name = None, index = RangeIndex 2, columns = schema,
      data = map2 (#) (index daily_frame) (data daily_frame)\<rparr> :: string dataframe"
  let ?ov = "DataFrame_of_dict (overview_record (ticker (StockData_init sample_keys ''MSFT'')))"
  let ?q = "from_records four_quarters"
  have a: "accepts_url sample_database ''postgresql://localhost/stocks''" "accepts_url picky_database ''postgresql://localhost/stocks''"
    by (simp_all add: sample_database_def picky_database_def)
  have h: "fst (get_historical_data (sample_provider daily_frame) (StockData_init sample_keys ''MSFT'') stale_world) = Inr ?hist"
    by (rule sample_historical)
  have f: "fst (get_fundamental_data (sample_provider daily_frame) (StockData_init sample_keys ''MSFT'') stale_world) = Inr (?ov, ?q, ?q, ?q)"
    by (rule sample_fundamental)
  have ok: "fst (save_to_database (sample_provider daily_frame) sample_database (StockData_init sample_keys ''MSFT'') ''postgresql://localhost/stocks'' stale_world) = Inr ()"
    by (simp add: sample_run)
  have split: "table_order = [''historical_data'', ''microsoft''] @ ''balance_sheet_data'' #
      [''income_statement_data'', ''cash_flow_data'']"
    by (simp add: table_order_def)
  have r: "\<forall>x\<in>set [''historical_data'', ''microsoft'']. \<not> rejects picky_database ''postgresql://localhost/stocks'' x"
    "rejects picky_database ''postgresql://localhost/stocks'' ''balance_sheet_data''"
    by (simp_all add: picky_database_def)
  have t: "map_of (zip table_order (map sql_of [?hist, ?ov, ?q, ?q, ?q]))
      ''balance_sheet_data'' = Some (sql_of ?q)"
    by (simp add: table_order_def)
  have i: "failed_write picky_database ''postgresql://localhost/stocks'' ''balance_sheet_data'' (sql_of ?q) = Intact"
    by (simp add: picky_database_def)
  from writes_in_order [OF a(1) h f, of "[]" "''historical_data''" "tl table_order"] ok
  have first: "events (sample_provider daily_frame) sample_database (StockData_init sample_keys ''MSFT'') ''postgresql://localhost/stocks'' stale_world =
     map (\<lambda>x. Call x ''MSFT'') fetch_order @ map Write table_order"
    by simp
  from writes_in_order [OF a(2) h f, of "[''historical_data'', ''microsoft'']"
      "''balance_sheet_data''" "[''income_statement_data'', ''cash_flow_data'']"
      "sql_of ?q"] split r t
  have second: "fst (save_to_database (sample_provider daily_frame) picky_database (StockData_init sample_keys ''MSFT'') ''postgresql://localhost/stocks'' stale_world) = Inl PersistenceError"
    "written (events (sample_provider daily_frame) picky_database (StockData_init sample_keys ''MSFT'') ''postgresql://localhost/stocks'' stale_world) =
       [''historical_data'', ''microsoft'', ''balance_sheet_data'']"
    "tables (snd (save_to_database (sample_provider daily_frame) picky_database (StockData_init sample_keys ''MSFT'') ''postgresql://localhost/stocks'' stale_world)) ''microsoft'' =
       map_of (zip table_order (map sql_of [?hist, ?ov, ?q, ?q, ?q])) ''microsoft''"
    "tables (snd (save_to_database (sample_provider daily_frame) picky_database (StockData_init sample_keys ''MSFT'') ''postgresql://localhost/stocks'' stale_world)) ''balance_sheet_data'' =
       settle (failed_write picky_database ''postgresql://localhost/stocks'' ''balance_sheet_data'' (sql_of ?q))
         (tables stale_world ''balance_sheet_data'')"
    "tables (snd (save_to_database (sample_provider daily_frame) picky_database (StockData_init sample_keys ''MSFT'') ''postgresql://localhost/stocks'' stale_world))
       ''income_statement_data'' = tables stale_world ''income_statement_data''"
    by simp_all
  from ok first second(1,2,3,5) second(4) [unfolded i] r(2) show ?thesis
    by (simp add: table_order_def sql_of_def DataFrame_of_dict_def overview_record_def
        stale_world_def)
qed

text \<open>
  The claim as stated has every table that was not written untouched, the one whose write
  failed among them. On a database where the insert fails after the table has been
  dropped and created anew, the earlier balance sheet is gone: the table is left with the
  new columns and no row.
\<close>

theorem writes_in_order_counterexample:
  "rejects recreating_database ''postgresql://localhost/stocks'' ''balance_sheet_data'' \<and>
   fst (save_to_database (sample_provider daily_frame) recreating_database (StockData_init sample_keys ''MSFT'') ''postgresql://localhost/stocks'' stale_world) = Inl PersistenceError \<and>
   tables stale_world ''balance_sheet_data'' =
     Some \<lparr>sql_columns = [''totalAssets''], sql_rows = [[Val ''127243'']]\<rparr> \<and>
   tables (snd (save_to_database (sample_provider daily_frame) recreating_database (StockData_init sample_keys ''MSFT'') ''postgresql://localhost/stocks'' stale_world))
     ''balance_sheet_data'' =
     Some \<lparr>sql_columns = [''fiscalDateEnding'', ''totalAssets''], sql_rows = []\<rparr>"
proof -
  have "rejects recreating_database ''postgresql://localhost/stocks'' ''balance_sheet_data''"
    by (simp add: recreating_database_def)
  then show ?thesis
    by (simp add: recreating_run stale_world_def sql_of_def from_records_def
        fast_unique_def four_quarters_def quarter_def Let_def)
qed

text \<open>
  C7. The run of any \<open>StockData\<close> object, whatever its ticker, writes the same five
  table names. After the runs of two objects one after the other, the tables are those
  the second run alone would have left: nothing of the first remains in them.
\<close>

theorem fixed_table_names:
  assumes "save_to_database prov db self1 conn w = (Inr (), w1)"
    and "save_to_database prov db self2 conn w1 = (Inr (), w2)"
  shows "written (events prov db self1 conn w) = table_order \<and>
         written (events prov db self2 conn w1) = table_order \<and>
         dom (tables w2) = dom (tables w) \<union> set table_order \<and>
         tables w2 = tables (snd (save_to_database prov db self2 conn w))"
proof -
  from assms(1) have "fst (save_to_database prov db self1 conn w) = Inr ()" by simp
  then obtain hist1 ov1 bs1 ic1 cf1 where
    run1: "save_to_database prov db self1 conn w =
       (Inr (),
        w\<lparr>tables := (\<lambda>x. if x \<in> set table_order
                           then map_of (zip table_order (map sql_of [hist1, ov1, bs1, ic1, cf1])) x
                           else tables w x),
          trace := trace w @ map (\<lambda>x. Call x (ticker self1)) fetch_order @
                   map Write table_order\<rparr>)"
    by (rule run_succeeded)
  from assms(2) have "fst (save_to_database prov db self2 conn w1) = Inr ()" by simp
  then obtain hist2 ov2 bs2 ic2 cf2 where
    ok: "accepts_url db conn" "\<forall>n\<in>set table_order. \<not> rejects db conn n" and
    hist: "fst (get_historical_data prov self2 w1) = Inr hist2" and
    fund: "fst (get_fundamental_data prov self2 w1) = Inr (ov2, bs2, ic2, cf2)" and
    run2: "save_to_database prov db self2 conn w1 =
       (Inr (),
        w1\<lparr>tables := (\<lambda>x. if x \<in> set table_order
                           then map_of (zip table_order (map sql_of [hist2, ov2, bs2, ic2, cf2])) x
                           else tables w1 x),
          trace := trace w1 @ map (\<lambda>x. Call x (ticker self2)) fetch_order @
                   map Write table_order\<rparr>)"
    by (rule run_succeeded)
  from hist have hist': "fst (get_historical_data prov self2 w) = Inr hist2"
    using fst_get_historical_data [of prov self2 w w1] by simp
  from fund have fund': "fst (get_fundamental_data prov self2 w) = Inr (ov2, bs2, ic2, cf2)"
    using fst_get_fundamental_data [of prov self2 w w1] by simp
  note alone = run_succeeds [OF ok hist' fund']
  from run1 assms(1) have w1: "tables w1 = (\<lambda>x. if x \<in> set table_order
      then map_of (zip table_order (map sql_of [hist1, ov1, bs1, ic1, cf1])) x
      else tables w x)"
    by auto
  from run2 assms(2) have w2: "tables w2 = (\<lambda>x. if x \<in> set table_order
      then map_of (zip table_order (map sql_of [hist2, ov2, bs2, ic2, cf2])) x
      else tables w1 x)"
    by auto
  have a: "written (events prov db self1 conn w) = table_order"
    using run1 by (simp add: events_def)
  have b: "written (events prov db self2 conn w1) = table_order"
    using run2 by (simp add: events_def)
  have c: "dom (tables w2) = dom (tables w) \<union> set table_order"
    unfolding w2 w1 by (auto simp add: table_order_def dom_def)
  have d: "tables w2 = tables (snd (save_to_database prov db self2 conn w))"
    unfolding w2 w1 alone by (simp add: fun_eq_iff)
  from a b c d show ?thesis by simp
qed

theorem fixed_table_names_witness:
  "written (events (sample_provider daily_frame) sample_database (StockData_init sample_keys ''MSFT'') ''postgresql://localhost/stocks'' empty_world) = table_order \<and>
   written (events (sample_provider daily_frame) sample_database (StockData_init sample_keys ''AAPL'') ''postgresql://localhost/stocks'' (snd (save_to_database (sample_provider daily_frame) sample_database (StockData_init sample_keys ''MSFT'') ''postgresql://localhost/stocks'' empty_world))) = table_order \<and>
   tables (snd (save_to_database (sample_provider daily_frame) sample_database (StockData_init sample_keys ''MSFT'') ''postgresql://localhost/stocks'' empty_world)) ''microsoft'' =
     Some \<lparr>sql_columns = [''Symbol'', ''Currency''], sql_rows = [[Val ''MSFT'', Val ''USD'']]\<rparr> \<and>
   tables (snd (save_to_database (sample_provider daily_frame) sample_database (StockData_init sample_keys ''AAPL'') ''postgresql://localhost/stocks'' (snd (save_to_database (sample_provider daily_frame) sample_database (StockData_init sample_keys ''MSFT'') ''postgresql://localhost/stocks'' empty_world)))) ''microsoft'' =
     Some \<lparr>sql_columns = [''Symbol'', ''Currency''], sql_rows = [[Val ''AAPL'', Val ''USD'']]\<rparr> \<and>
   dom (tables (snd (save_to_database (sample_provider daily_frame) sample_database (StockData_init sample_keys ''AAPL'') ''postgresql://localhost/stocks'' (snd (save_to_database (sample_provider daily_frame) sample_database (StockData_init sample_keys ''MSFT'') ''postgresql://localhost/stocks'' empty_world))))) = set table_order"
proof -
  let ?w1 = "snd (save_to_database (sample_provider daily_frame) sample_database (StockData_init sample_keys ''MSFT'') ''postgresql://localhost/stocks'' empty_world)"
  let ?w2 = "snd (save_to_database (sample_provider daily_frame) sample_database (StockData_init sample_keys ''AAPL'') ''postgresql://localhost/stocks'' ?w1)"
  have a: "save_to_database (sample_provider daily_frame) sample_database (StockData_init sample_keys ''MSFT'') ''postgresql://localhost/stocks'' empty_world = (Inr (), ?w1)"
    by (simp add: sample_run)
  have b: "save_to_database (sample_provider daily_frame) sample_database (StockData_init sample_keys ''AAPL'') ''postgresql://localhost/stocks'' ?w1 = (Inr (), ?w2)"
    by (simp add: sample_run)
  have c: "tables ?w1 ''microsoft'' = Some \<lparr>sql_columns = [''Symbol'', ''Currency''], sql_rows = [[Val ''MSFT'', Val ''USD'']]\<rparr>"
    by (simp add: sample_run table_order_def sql_of_def DataFrame_of_dict_def
        overview_record_def)
  have d: "tables (snd (save_to_database (sample_provider daily_frame) sample_database (StockData_init sample_keys ''AAPL'') ''postgresql://localhost/stocks'' empty_world)) ''microsoft'' =
      Some \<lparr>sql_columns = [''Symbol'', ''Currency''], sql_rows = [[Val ''AAPL'', Val ''USD'']]\<rparr>"
    by (simp add: sample_run table_order_def sql_of_def DataFrame_of_dict_def
        overview_record_def)
  note r = fixed_table_names [OF a b]
  have e: "tables ?w2 ''microsoft'' = Some \<lparr>sql_columns = [''Symbol'', ''Currency''], sql_rows = [[Val ''AAPL'', Val ''USD'']]\<rparr>"
    using r [THEN conjunct2, THEN conjunct2, THEN conjunct2] d by simp
  have f: "dom (tables ?w2) = set table_order"
    using r [THEN conjunct2, THEN conjunct2, THEN conjunct1]
    by (simp add: empty_world_def)
  from r [THEN conjunct1] r [THEN conjunct2, THEN conjunct1] c e f
  show ?thesis
    by simp
qed

text \<open>
  C8. For every ticker, the table written second, the one that receives the company
  overview, is named \<^verbatim>\<open>microsoft\<close>.
\<close>

theorem overview_table_is_microsoft:
  assumes "fst (save_to_database prov db self conn w) = Inr ()"
    and "company_overview prov (fd_key (fd self)) (ticker self) = Inr (d, m)"
  shows "tables (snd (save_to_database prov db self conn w)) ''microsoft'' =
           Some (sql_of (DataFrame_of_dict d)) \<and>
         written (events prov db self conn w) ! 1 = ''microsoft''"
proof -
  from assms(1) obtain hist ov bs ic cf where
    fund: "fst (get_fundamental_data prov self w) = Inr (ov, bs, ic, cf)" and
    run: "save_to_database prov db self conn w =
       (Inr (),
        w\<lparr>tables := (\<lambda>x. if x \<in> set table_order
                           then map_of (zip table_order (map sql_of [hist, ov, bs, ic, cf])) x
                           else tables w x),
          trace := trace w @ map (\<lambda>x. Call x (ticker self)) fetch_order @
                   map Write table_order\<rparr>)"
    by (rule run_succeeded)
  from fund assms(2) have "ov = DataFrame_of_dict d"
    by (simp add: get_fundamental_data_cases split: sum.splits)
  with run show ?thesis
    by (simp add: events_def table_order_def)
qed

theorem overview_table_is_microsoft_witness:
  "fst (save_to_database (sample_provider daily_frame) sample_database (StockData_init sample_keys ''AAPL'') ''postgresql://localhost/stocks'' empty_world) = Inr () \<and>
   tables (snd (save_to_database (sample_provider daily_frame) sample_database (StockData_init sample_keys ''AAPL'') ''postgresql://localhost/stocks'' empty_world)) ''microsoft'' =
     Some \<lparr>sql_columns = [''Symbol'', ''Currency''], sql_rows = [[Val ''AAPL'', Val ''USD'']]\<rparr>"
proof -
  have a: "fst (save_to_database (sample_provider daily_frame) sample_database (StockData_init sample_keys ''AAPL'') ''postgresql://localhost/stocks'' empty_world) = Inr ()"
    by (simp add: sample_run)
  have b: "company_overview (sample_provider daily_frame) (fd_key (fd (StockData_init sample_keys ''AAPL''))) (ticker (StockData_init sample_keys ''AAPL'')) =
      Inr (overview_record ''AAPL'', [])"
    by (simp add: sample_provider_def)
  from overview_table_is_microsoft [OF a b] a show ?thesis
    by (simp add: sql_of_def DataFrame_of_dict_def overview_record_def)
qed

section \<open>The fundamentals\<close>

lemma remdups_append_covered:
  "set xs \<subseteq> set ys \<Longrightarrow> remdups (xs @ ys) = remdups ys"
  by (induction xs) auto

lemma set_fast_unique [simp]: "set (fast_unique kss) = (\<Union>ks\<in>set kss. set ks)"
  by (simp add: fast_unique_def)

lemma distinct_fast_unique [simp]: "distinct (fast_unique kss)"
  by (simp add: fast_unique_def)

lemma fast_unique_same:
  assumes "distinct ks" and "\<forall>k\<in>set kss. k = ks"
  shows "fast_unique (ks # kss) = ks"
proof -
  from assms(2) have "set (rev (concat kss)) \<subseteq> set (rev ks)"
    by auto
  then have "remdups (rev (concat kss) @ rev ks) = remdups (rev ks)"
    by (rule remdups_append_covered)
  with assms(1) show ?thesis
    by (simp add: fast_unique_def distinct_remdups_id)
qed

lemma row_of_record:
  "distinct (map fst r) \<Longrightarrow>
   map (\<lambda>c. case map_of r c of Some v \<Rightarrow> Val v | None \<Rightarrow> NaN) (map fst r) =
   map (\<lambda>kv. Val (snd kv)) r"
  by (induction r) (auto simp add: image_iff)

text \<open>
  C9. When the overview endpoint answers with one record and the quarterly balance-sheet
  endpoint with four (and the two remaining endpoints answer at all), then
  \<open>get_fundamental_data\<close> returns an overview table of exactly one row, whose columns are
  the keys of the record and whose row holds its values, and a balance-sheet table of
  exactly four rows, whose columns are the keys of the four records, each once; when the
  four records have the same keys in the same order, these are the columns in that
  order and each row holds the values of its record.
\<close>

theorem fundamental_rows:
  assumes "company_overview prov (fd_key (fd self)) (ticker self) = Inr (ov, m1)"
    and "balance_sheet_quarterly prov (fd_key (fd self)) (ticker self) = Inr (qs, m2)"
    and "length qs = 4"
    and "raised prov self IncomeStatementQuarterly = None"
    and "raised prov self CashFlowQuarterly = None"
  shows "\<exists>overview_df bs_df is_df cf_df.
           fst (get_fundamental_data prov self w) = Inr (overview_df, bs_df, is_df, cf_df) \<and>
           length (data overview_df) = 1 \<and>
           columns overview_df = map fst ov \<and>
           data overview_df = [map (\<lambda>kv. Val (snd kv)) ov] \<and>
           length (data bs_df) = 4 \<and>
           distinct (columns bs_df) \<and>
           set (columns bs_df) = (\<Union>q\<in>set qs. fst ` set q) \<and>
           (distinct ks \<and> (\<forall>q\<in>set qs. map fst q = ks) \<longrightarrow>
              columns bs_df = ks \<and> data bs_df = map (map (\<lambda>kv. Val (snd kv))) qs)"
proof -
  from assms(4,5) obtain ic cf where
    ic: "income_statement_quarterly prov (fd_key (fd self)) (ticker self) = Inr ic" and
    cf: "cash_flow_quarterly prov (fd_key (fd self)) (ticker self) = Inr cf"
    by (auto simp add: failure_def split: sum.splits)
  have run: "fst (get_fundamental_data prov self w) =
      Inr (DataFrame_of_dict ov, from_records qs, from_records (fst ic), from_records (fst cf))"
    by (simp add: get_fundamental_data_cases assms(1,2) ic cf)
  have same: "columns (from_records qs) = ks \<and>
      data (from_records qs) = map (map (\<lambda>kv. Val (snd kv))) qs"
    if "distinct ks" and all: "\<forall>q\<in>set qs. map fst q = ks"
  proof -
    from assms(3) obtain q qs' where qs: "qs = q # qs'"
      by (cases qs) auto
    with all have "map fst q = ks" "\<forall>k\<in>set (map (map fst) qs'). k = ks"
      by auto
    with \<open>distinct ks\<close> qs have c: "fast_unique (map (map fst) qs) = ks"
      by (simp add: fast_unique_same)
    have "map (\<lambda>c. case map_of r c of Some v \<Rightarrow> Val v | None \<Rightarrow> NaN) ks =
        map (\<lambda>kv. Val (snd kv)) r" if "r \<in> set qs" for r
      using that all \<open>distinct ks\<close> row_of_record [of r] by auto
    with c show ?thesis
      by (simp add: from_records_def Let_def)
  qed
  have "length (data (DataFrame_of_dict ov)) = 1"
    "columns (DataFrame_of_dict ov) = map fst ov"
    "data (DataFrame_of_dict ov) = [map (\<lambda>kv. Val (snd kv)) ov]"
    by (simp_all add: DataFrame_of_dict_def)
  moreover have "length (data (from_records qs)) = 4"
    "distinct (columns (from_records qs))"
    "set (columns (from_records qs)) = (\<Union>q\<in>set qs. fst ` set q)"
    using assms(3) by (simp_all add: from_records_def Let_def)
  ultimately show ?thesis
    using run same by auto
qed

theorem fundamental_rows_witness:
  "map_sum id (\<lambda>r. (columns (fst r), data (fst r)))
     (fst (get_fundamental_data (sample_provider daily_frame)
        (StockData_init sample_keys ''MSFT'') empty_world)) =
     Inr ([''Symbol'', ''Currency''], [[Val ''MSFT'', Val ''USD'']]) \<and>
   map_sum id (\<lambda>r. (columns (fst (snd r)), data (fst (snd r))))
     (fst (get_fundamental_data (sample_provider daily_frame)
        (StockData_init sample_keys ''MSFT'') empty_world)) =
     Inr ([''fiscalDateEnding'', ''totalAssets''],
          [[Val ''2023-12-31'', Val ''470558''], [Val ''2023-09-30'', Val ''445785''],
           [Val ''2023-06-30'', Val ''411976''], [Val ''2023-03-31'', Val ''380088'']])"
proof -
  let ?self = "StockData_init sample_keys ''MSFT''"
  let ?prov = "sample_provider daily_frame"
  have a: "company_overview ?prov (fd_key (fd ?self)) (ticker ?self) =
      Inr (overview_record ''MSFT'', [])"
    by (simp add: sample_provider_def)
  have b: "balance_sheet_quarterly ?prov (fd_key (fd ?self)) (ticker ?self) =
      Inr (four_quarters, [])"
    by (simp add: sample_provider_def)
  have c: "length four_quarters = 4"
    by (simp add: four_quarters_def)
  have d: "raised ?prov ?self IncomeStatementQuarterly = None"
    "raised ?prov ?self CashFlowQuarterly = None"
    by (simp_all add: sample_provider_def failure_def)
  have e: "distinct [''fiscalDateEnding'', ''totalAssets''] \<and>
      (\<forall>q\<in>set four_quarters. map fst q = [''fiscalDateEnding'', ''totalAssets''])"
    by (simp add: four_quarters_def quarter_def)
  note t = fundamental_rows [OF a b c d,
      where ks = "[''fiscalDateEnding'', ''totalAssets'']" and w = empty_world]
  from t show ?thesis
  proof (elim exE conjE)
    fix overview_df bs_df is_df cf_df :: "string dataframe"
    assume r: "fst (get_fundamental_data ?prov ?self empty_world) =
          Inr (overview_df, bs_df, is_df, cf_df)"
      and o: "columns overview_df = map fst (overview_record ''MSFT'')"
        "data overview_df = [map (\<lambda>kv. Val (snd kv)) (overview_record ''MSFT'')]"
      and q: "distinct [''fiscalDateEnding'', ''totalAssets''] \<and>
        (\<forall>q\<in>set four_quarters. map fst q = [''fiscalDateEnding'', ''totalAssets'']) \<longrightarrow>
        columns bs_df = [''fiscalDateEnding'', ''totalAssets''] \<and>
        data bs_df = map (map (\<lambda>kv. Val (snd kv))) four_quarters"
    from q [THEN mp, OF e] have s: "columns bs_df = [''fiscalDateEnding'', ''totalAssets'']"
      "data bs_df = map (map (\<lambda>kv. Val (snd kv))) four_quarters"
      by (rule conjunct1, rule conjunct2)
    have o': "columns overview_df = [''Symbol'', ''Currency'']"
      "data overview_df = [[Val ''MSFT'', Val ''USD'']]"
      unfolding o by (simp_all add: overview_record_def)
    have s': "data bs_df =
        [[Val ''2023-12-31'', Val ''470558''], [Val ''2023-09-30'', Val ''445785''],
         [Val ''2023-06-30'', Val ''411976''], [Val ''2023-03-31'', Val ''380088'']]"
      unfolding s by (simp add: four_quarters_def quarter_def)
    show ?thesis
      unfolding r by (simp add: o' s(1) s')
  qed
qed

section \<open>Construction\<close>





end
